theory Spec2Isabelle
  imports Main
begin

section \<open>Python values\<close>

text \<open>
  A Python float is an IEEE double: \<open>Finite m e\<close> stands for \<open>m * 2 ^ e\<close>. The
  programs never compute with floats, they only pass them on (a laser power, the
  request timeout).
\<close>

datatype pyfloat = Finite int int | PosInf | NegInf | NaN

text \<open>
  What \<^verbatim>\<open>json.loads\<close> returns and what \<^verbatim>\<open>requests.post(json=...)\<close> sends: \<open>None\<close>,
  \<open>bool\<close>, \<open>int\<close>, \<open>float\<close>, \<open>str\<close>, \<open>list\<close> and \<open>dict\<close> (string keys, in
  order).
\<close>

datatype json =
    JNull
  | JBool bool
  | JInt int
  | JFloat pyfloat
  | JStr string
  | JArr "json list"
  | JObj "(string \<times> json) list"

text \<open>
  The exceptions the two scripts can meet. \<open>ECMException\<close> is the class of the
  scripts; its message is whatever value it was built from. The others are Python's
  own: \<open>JSONDecodeError\<close> from \<^verbatim>\<open>json.loads\<close>, \<open>RequestException\<close> from
  \<^verbatim>\<open>requests.post\<close> (no connection, or the request timed out), \<open>OSError\<close> from
  \<^verbatim>\<open>open\<close>, \<open>SystemExit\<close> from \<^verbatim>\<open>argparse\<close>.
\<close>

datatype exn =
    ECMException json
  | KeyError string
  | TypeError
  | ValueError
  | JSONDecodeError
  | AttributeError string
  | RequestException
  | OverflowError
  | OSError
  | SystemExit int

section \<open>The wire\<close>

text \<open>The dictionary \<^verbatim>\<open>dict(jsonrpc="2.0", id=self.id, method=methodName, params=kwargs)\<close>.\<close>

record envelope =
  jsonrpc :: string
  rpc_id :: int
  rpc_method :: string
  params :: "(string \<times> json) list"

text \<open>The arguments of one \<^verbatim>\<open>requests.post\<close>; \<open>post_timeout\<close> is in seconds.\<close>

record request =
  post_url :: string
  post_headers :: "(string \<times> string) list"
  post_json :: envelope
  post_timeout :: "pyfloat option"
  post_proxies :: "(string \<times> string option) list"

text \<open>
  What \<^verbatim>\<open>requests.post\<close> gives back: it raises (\<open>NoResponse\<close>), or it returns a
  response with its \<open>status_code\<close>, its \<open>text\<close> and what \<^verbatim>\<open>json.loads\<close> makes of the
  text (\<open>None\<close> where it raises).
\<close>

datatype reply = NoResponse | Response int string "json option"

text \<open>What the scripts print: the structure of each line, not its characters.\<close>

datatype printed =
    OutSent string      \<comment> \<open>\<^verbatim>\<open>"Sent = " + methodName + " command."\<close>\<close>
  | OutResponse int     \<comment> \<open>\<^verbatim>\<open>print(res)\<close>\<close>
  | OutException json   \<comment> \<open>\<^verbatim>\<open>print(ex)\<close>\<close>
  | OutStatus json      \<comment> \<open>\<^verbatim>\<open>"status: {0}".format(status)\<close>\<close>
  | OutPowers json      \<comment> \<open>\<^verbatim>\<open>print(powers)\<close>\<close>
  | OutPower json       \<comment> \<open>\<^verbatim>\<open>"{0:.3g}".format(value)\<close>\<close>
  | OutTimedOut json    \<comment> \<open>\<^verbatim>\<open>"timed-out waiting with status '{0}'. Aborting."\<close>\<close>

text \<open>
  Everything a run does to the outside, in order. \<open>Sleep\<close> counts milliseconds:
  \<^verbatim>\<open>time.sleep(0.250)\<close> is \<open>Sleep 250\<close>.
\<close>

datatype event = Post request | Sleep nat | Stdout printed | Stderr printed

text \<open>
  The remote end is not part of the repository: it is any function from what has
  happened so far and the request to a reply.
\<close>

type_synonym server = "event list \<Rightarrow> request \<Rightarrow> reply"

section \<open>State and exceptions\<close>

text \<open>
  The attributes of \<^verbatim>\<open>class ECMConnection\<close>; \<open>next_id\<close> is \<^verbatim>\<open>self._id\<close>. Only
  \<^verbatim>\<open>ecm_custom.py\<close> has \<open>debug\<close>; the functions of \<^verbatim>\<open>ecm_run.py\<close> never read it.
\<close>

record ECMConnection =
  url :: string
  next_id :: int
  debug :: bool
  headers :: "(string \<times> string) list"

record state =
  ecm :: ECMConnection
  trace :: "event list"

text \<open>
  A statement of the scripts takes the state and gives back what it returns or raises,
  with the state it leaves. An interruption of the process from outside is not part of
  the model.
\<close>

type_synonym 'a prog = "state \<Rightarrow> (exn + 'a) \<times> state"

definition ret :: "'a \<Rightarrow> 'a prog" where
  "ret x = (\<lambda>s. (Inr x, s))"

definition raise :: "exn \<Rightarrow> 'a prog" where
  "raise e = (\<lambda>s. (Inl e, s))"

definition bind :: "'a prog \<Rightarrow> ('a \<Rightarrow> 'b prog) \<Rightarrow> 'b prog" where
  "bind m f = (\<lambda>s. case m s of (Inl e, s') \<Rightarrow> (Inl e, s') | (Inr x, s') \<Rightarrow> f x s')"

definition seq :: "'a prog \<Rightarrow> 'b prog \<Rightarrow> 'b prog" where
  "seq m k = bind m (\<lambda>_. k)"

definition emit :: "event \<Rightarrow> state \<Rightarrow> state" where
  "emit e s = s\<lparr>trace := trace s @ [e]\<rparr>"

definition sleep :: "nat \<Rightarrow> unit prog" where
  "sleep ms = (\<lambda>s. (Inr (), emit (Sleep ms) s))"

definition print_out :: "printed \<Rightarrow> unit prog" where
  "print_out x = (\<lambda>s. (Inr (), emit (Stdout x) s))"

definition print_err :: "printed \<Rightarrow> unit prog" where
  "print_err x = (\<lambda>s. (Inr (), emit (Stderr x) s))"

text \<open>A call whose result is assigned and never read, or not assigned at all.\<close>

definition discard :: "'a prog \<Rightarrow> unit prog" where
  "discard m = bind m (\<lambda>_. ret ())"

text \<open>\<^verbatim>\<open>if not x is None: ...\<close>\<close>

definition when_some :: "'a option \<Rightarrow> ('a \<Rightarrow> 'b prog) \<Rightarrow> unit prog" where
  "when_some x f = (case x of None \<Rightarrow> ret () | Some v \<Rightarrow> discard (f v))"

text \<open>\<^verbatim>\<open>if b: ...\<close>\<close>

definition when_true :: "bool \<Rightarrow> 'a prog \<Rightarrow> unit prog" where
  "when_true b m = (if b then discard m else ret ())"

section \<open>Subscripts and membership on decoded JSON\<close>

fun substr :: "string \<Rightarrow> string \<Rightarrow> bool" where
  "substr k [] = (k = [])"
| "substr k (c # t) = (take (length k) (c # t) = k \<or> substr k t)"

text \<open>
  \<^verbatim>\<open>key in r\<close>: a key of a dict, an element of a list, a substring of a string;
  \<open>TypeError\<close> on anything else.
\<close>

fun contains :: "json \<Rightarrow> string \<Rightarrow> exn + bool" where
  "contains (JObj kvs) k = Inr (k \<in> set (map fst kvs))"
| "contains (JArr xs) k = Inr (JStr k \<in> set xs)"
| "contains (JStr t) k = Inr (substr k t)"
| "contains _ k = Inl TypeError"

text \<open>
  \<^verbatim>\<open>r[key]\<close> with a string key: the value of a dict (\<open>KeyError\<close> when absent),
  \<open>TypeError\<close> on anything else.
\<close>

fun getitem :: "json \<Rightarrow> string \<Rightarrow> exn + json" where
  "getitem (JObj kvs) k = (case map_of kvs k of None \<Rightarrow> Inl (KeyError k) | Some v \<Rightarrow> Inr v)"
| "getitem _ k = Inl TypeError"

text \<open>
  The OK branch of \<open>call\<close>, the same lines in both scripts:
  \<^verbatim>\<open>
  r = json.loads(res.text)
  if "error" in r:
      raise ECMException(r["error"]["message"])
  else:
      result = r["result"]
  \<close>
\<close>

definition rpc_result :: "json option \<Rightarrow> exn + json" where
  "rpc_result loaded =
     (case loaded of
        None \<Rightarrow> Inl JSONDecodeError
      | Some r \<Rightarrow>
          (case contains r ''error'' of
             Inl e \<Rightarrow> Inl e
           | Inr True \<Rightarrow>
               (case getitem r ''error'' of
                  Inl e \<Rightarrow> Inl e
                | Inr err \<Rightarrow>
                    (case getitem err ''message'' of
                       Inl e \<Rightarrow> Inl e
                     | Inr m \<Rightarrow> Inl (ECMException m)))
           | Inr False \<Rightarrow> getitem r ''result''))"

section \<open>\<^verbatim>\<open>ecm_run.py\<close>: the connection\<close>

text \<open>\<^verbatim>\<open>ECMConnection(url)\<close>.\<close>

definition init_run :: "string \<Rightarrow> state" where
  "init_run u =
     \<lparr>ecm = \<lparr>url = u, next_id = 0, debug = False,
              headers = [(''content-type'', ''application/json'')]\<rparr>,
      trace = []\<rparr>"

text \<open>The double nearest to \<open>0.2\<close>.\<close>

definition timeout_0_2 :: pyfloat where
  "timeout_0_2 = Finite 3602879701896397 (- 54)"

text \<open>
  The request \<open>call\<close> posts: the envelope with the identifier the property \<open>id\<close>
  hands out, and the keyword arguments of \<^verbatim>\<open>requests.post\<close>. In \<open>call\<close> the
  identifier is taken before the request is posted, so it is used up whatever the
  request does; \<^verbatim>\<open>requests.codes.ok\<close> is 200.
\<close>

definition request_run :: "ECMConnection \<Rightarrow> string \<Rightarrow> (string \<times> json) list \<Rightarrow> request" where
  "request_run c methodName kwargs =
     \<lparr>post_url = url c,
      post_headers = headers c,
      post_json = \<lparr>jsonrpc = ''2.0'', rpc_id = next_id c, rpc_method = methodName, params = kwargs\<rparr>,
      post_timeout = Some timeout_0_2,
      post_proxies = [(''http'', None)]\<rparr>"

definition call_run :: "server \<Rightarrow> string \<Rightarrow> (string \<times> json) list \<Rightarrow> json prog" where
  "call_run srv methodName kwargs s =
     (let c = ecm s;
          req = request_run c methodName kwargs;
          s1 = emit (Post req) (s\<lparr>ecm := c\<lparr>next_id := next_id c + 1\<rparr>\<rparr>)
      in case srv (trace s) req of
           NoResponse \<Rightarrow> (Inl RequestException, s1)
         | Response status_code text loaded \<Rightarrow>
             if status_code = 200 then (rpc_result loaded, s1)
             else (Inl (ECMException (JStr text)), emit (Stdout (OutResponse status_code)) s1))"

text \<open>
  The body of the loop of \<open>wait\<close> up to the \<^verbatim>\<open>except\<close>: the new status, or the old one
  when the call raised \<open>ECMException\<close>, which is printed; any other exception leaves
  the loop.
\<close>

definition poll_run :: "server \<Rightarrow> json \<Rightarrow> json \<Rightarrow> json prog" where
  "poll_run srv handle status s =
     (case call_run srv ''Queue.GetMeasurementState'' [(''handle'', handle)] s of
        (Inr r, s1) \<Rightarrow> (Inr r, s1)
      | (Inl e, s1) \<Rightarrow>
          (case e of
             ECMException m \<Rightarrow> (Inr status, emit (Stdout (OutException m)) s1)
           | _ \<Rightarrow> (Inl e, s1)))"

function wait_loop_run :: "server \<Rightarrow> json \<Rightarrow> json \<Rightarrow> int \<Rightarrow> json prog" where
  "wait_loop_run srv handle status timeout s =
     (if status \<noteq> JStr ''COMPLETE'' \<and> timeout > 0 then
        (case poll_run srv handle status s of
           (Inl e, s1) \<Rightarrow> (Inl e, s1)
         | (Inr status', s1) \<Rightarrow>
             wait_loop_run srv handle status' (timeout - 250) (emit (Sleep 250) s1))
      else (Inr status, s))"
  by pat_completeness auto
termination
  by (relation "measure (\<lambda>(srv, handle, status, timeout, s). nat timeout)") auto

definition wait_run :: "server \<Rightarrow> json \<Rightarrow> int \<Rightarrow> json prog" where
  "wait_run srv handle timeout s = wait_loop_run srv handle (JStr '''') timeout s"

section \<open>\<^verbatim>\<open>ecm_custom.py\<close>: the connection\<close>

definition init_custom :: "string \<Rightarrow> state" where
  "init_custom u =
     \<lparr>ecm = \<lparr>url = u, next_id = 0, debug = False,
              headers = [(''Content-Type'', ''application/json'')]\<rparr>,
      trace = []\<rparr>"

text \<open>No \<open>timeout\<close> is given to \<^verbatim>\<open>requests.post\<close> here.\<close>

definition request_custom :: "ECMConnection \<Rightarrow> string \<Rightarrow> (string \<times> json) list \<Rightarrow> request" where
  "request_custom c methodName kwargs =
     \<lparr>post_url = url c,
      post_headers = headers c,
      post_json = \<lparr>jsonrpc = ''2.0'', rpc_id = next_id c, rpc_method = methodName, params = kwargs\<rparr>,
      post_timeout = None,
      post_proxies = [(''http'', None)]\<rparr>"

definition call_custom :: "server \<Rightarrow> string \<Rightarrow> (string \<times> json) list \<Rightarrow> json prog" where
  "call_custom srv methodName kwargs s =
     (let c = ecm s;
          s0 = (if debug c \<and> methodName \<noteq> ''Queue.GetMeasurementState''
                then emit (Stdout (OutSent methodName)) s else s);
          req = request_custom c methodName kwargs;
          s1 = emit (Post req) (s0\<lparr>ecm := c\<lparr>next_id := next_id c + 1\<rparr>\<rparr>)
      in case srv (trace s0) req of
           NoResponse \<Rightarrow> (Inl RequestException, s1)
         | Response status_code text loaded \<Rightarrow>
             if status_code = 200 then (rpc_result loaded, s1)
             else (Inl (ECMException (JStr text)), s1))"

definition poll_custom :: "server \<Rightarrow> json \<Rightarrow> json \<Rightarrow> json prog" where
  "poll_custom srv handle status s =
     (case call_custom srv ''Queue.GetMeasurementState'' [(''handle'', handle)] s of
        (Inr r, s1) \<Rightarrow>
          (Inr r, if debug (ecm s1) then emit (Stdout (OutStatus r)) s1 else s1)
      | (Inl e, s1) \<Rightarrow>
          (case e of
             ECMException m \<Rightarrow> (Inr status, emit (Stdout (OutException m)) s1)
           | _ \<Rightarrow> (Inl e, s1)))"

function wait_loop_custom :: "server \<Rightarrow> json \<Rightarrow> json \<Rightarrow> int \<Rightarrow> json prog" where
  "wait_loop_custom srv handle status timeout s =
     (if status \<noteq> JStr ''COMPLETE'' \<and> timeout > 0 then
        (case poll_custom srv handle status s of
           (Inl e, s1) \<Rightarrow> (Inl e, s1)
         | (Inr status', s1) \<Rightarrow>
             wait_loop_custom srv handle status' (timeout - 250) (emit (Sleep 250) s1))
      else (Inr status, s))"
  by pat_completeness auto
termination
  by (relation "measure (\<lambda>(srv, handle, status, timeout, s). nat timeout)") auto

definition wait_custom :: "server \<Rightarrow> json \<Rightarrow> int \<Rightarrow> json prog" where
  "wait_custom srv handle timeout s =
     wait_loop_custom srv handle (JStr '''') timeout (emit (Sleep 250) s)"

section \<open>The command line\<close>

text \<open>
  What \<^verbatim>\<open>parse_whitelight\<close> returns: a dictionary with these six keys.
\<close>

record whitelight =
  Image :: string
  Objective :: pyfloat
  XPosition :: pyfloat
  YPosition :: pyfloat
  XFieldOfView :: pyfloat
  YFieldOfView :: pyfloat

text \<open>
  What the caller supplied: for each option its converted value, \<open>None\<close> when the
  option is absent; for a flag whether it is present. \<open>arg_stage\<close> lists the stage
  flags in the order given, \<open>False\<close> for \<^verbatim>\<open>--use-client-stage\<close> and \<open>True\<close> for
  \<^verbatim>\<open>--use-wire-stage\<close>.
\<close>

record cli =
  arg_url :: "string option"
  arg_template :: "string option"
  arg_filename :: "string option"
  arg_exposure :: "int option"
  arg_accumulations :: "int option"
  arg_get_laserpowers :: bool
  arg_power :: "pyfloat option"
  arg_whitelight :: "whitelight option"
  arg_map :: "json list option"
  arg_series :: "json list option"
  arg_custom :: "json list option"
  arg_stage :: "bool list"
  arg_triggers :: bool
  arg_send_trigger :: "int option"
  arg_debug :: bool
  arg_timeout :: "int option"

text \<open>
  The namespace \<^verbatim>\<open>parse_args\<close> returns; \<open>opt_x\<close> is \<^verbatim>\<open>options.x\<close>. \<^verbatim>\<open>ecm_run.py\<close>
  defines and reads the first seven only.
\<close>

record options =
  opt_url :: string
  opt_template :: "string option"
  opt_filename :: "string option"
  opt_exposure :: "int option"
  opt_accumulations :: "int option"
  opt_get_laserpowers :: bool
  opt_power :: "pyfloat option"
  opt_whitelight :: "whitelight option"
  opt_map :: "json list option"
  opt_series :: "json list option"
  opt_custom :: "json list option"
  opt_stage :: "bool option"
  opt_triggers :: bool
  opt_send_trigger :: "int option"
  opt_debug :: bool
  opt_timeout :: int

text \<open>
  The parser of \<^verbatim>\<open>ecm_run.py\<close>, as \<^verbatim>\<open>argparse\<close> behaves: \<^verbatim>\<open>--template\<close> is
  required, an option the parser does not define is an error (exit status 2), an
  absent option is \<open>None\<close>, an absent \<^verbatim>\<open>store_true\<close> flag is \<open>False\<close>.
\<close>

definition parse_args_run :: "cli \<Rightarrow> exn + options" where
  "parse_args_run args =
     (if arg_template args = None \<or> arg_whitelight args \<noteq> None \<or> arg_map args \<noteq> None
         \<or> arg_series args \<noteq> None \<or> arg_custom args \<noteq> None \<or> arg_stage args \<noteq> []
         \<or> arg_triggers args \<or> arg_send_trigger args \<noteq> None \<or> arg_debug args
         \<or> arg_timeout args \<noteq> None
      then Inl (SystemExit 2)
      else Inr \<lparr>
        opt_url = (case arg_url args of None \<Rightarrow> ''http://localhost:9880/api'' | Some u \<Rightarrow> u),
        opt_template = arg_template args,
        opt_filename = arg_filename args,
        opt_exposure = arg_exposure args,
        opt_accumulations = arg_accumulations args,
        opt_get_laserpowers = arg_get_laserpowers args,
        opt_power = arg_power args,
        opt_whitelight = None, opt_map = None, opt_series = None, opt_custom = None,
        opt_stage = None, opt_triggers = False, opt_send_trigger = None,
        opt_debug = False, opt_timeout = 10000\<rparr>)"

text \<open>
  The parser of \<^verbatim>\<open>ecm_custom.py\<close>. The two stage flags share \<^verbatim>\<open>dest='stage'\<close>:
  \<^verbatim>\<open>store_false\<close> is added first and its default, \<open>True\<close>, is the value of
  \<^verbatim>\<open>options.stage\<close> when neither flag is given (\<^verbatim>\<open>argparse\<close> sets the default of the
  first action of a destination); when flags are given the last one decides.
\<close>

definition parse_args_custom :: "cli \<Rightarrow> options" where
  "parse_args_custom args =
     \<lparr>opt_url = (case arg_url args of None \<Rightarrow> ''http://localhost:9880/api/'' | Some u \<Rightarrow> u),
      opt_template = arg_template args,
      opt_filename = arg_filename args,
      opt_exposure = arg_exposure args,
      opt_accumulations = arg_accumulations args,
      opt_get_laserpowers = arg_get_laserpowers args,
      opt_power = arg_power args,
      opt_whitelight = arg_whitelight args,
      opt_map = arg_map args,
      opt_series = arg_series args,
      opt_custom = arg_custom args,
      opt_stage = Some (if arg_stage args = [] then True else last (arg_stage args)),
      opt_triggers = arg_triggers args,
      opt_send_trigger = arg_send_trigger args,
      opt_debug = arg_debug args,
      opt_timeout = (case arg_timeout args of None \<Rightarrow> 60000 | Some t \<Rightarrow> t)\<rparr>"

text \<open>
  \<^verbatim>\<open>with open(options.template) as f: template_xml = f.read()\<close>, over a file system
  given as a map from paths to contents.
\<close>

definition read_template :: "(string \<Rightarrow> string option) \<Rightarrow> string option \<Rightarrow> string prog" where
  "read_template files path =
     (case path of
        None \<Rightarrow> raise TypeError
      | Some p \<Rightarrow> (case files p of None \<Rightarrow> raise OSError | Some text \<Rightarrow> ret text))"

section \<open>\<^verbatim>\<open>ecm_run.py\<close>: \<open>main\<close>\<close>

text \<open>
  The result is what \<open>main\<close> returns or raises, with everything it did. The line
  \<^verbatim>\<open>ecm.Measurement.SetAccumulation(handle, 10)\<close> reads an attribute the class does not
  have.
\<close>

definition main_run :: "server \<Rightarrow> (string \<Rightarrow> string option) \<Rightarrow> cli \<Rightarrow> (exn + int) \<times> event list" where
  "main_run srv files args =
     (case parse_args_run args of
        Inl e \<Rightarrow> (Inl e, [])
      | Inr options \<Rightarrow>
          (case
             (bind (read_template files (opt_template options)) (\<lambda>template_xml.
              bind (call_run srv ''Queue.Add''
                      [(''paused'', JBool True), (''monitor'', JBool False),
                       (''wxmString'', JStr template_xml)]) (\<lambda>handle.
              seq (when_some (opt_exposure options) (\<lambda>v.
                     call_run srv ''Measurement.SetExposure''
                       [(''handle'', handle), (''exposure'', JInt v)]))
             (seq (when_some (opt_filename options) (\<lambda>v.
                     call_run srv ''Measurement.SetFilename''
                       [(''handle'', handle), (''filename'', JStr v)]))
             (seq (when_some (opt_accumulations options) (\<lambda>v.
                     seq (call_run srv ''Measurement.SetAccumulations''
                            [(''handle'', handle), (''accumulations'', JInt v)])
                         (raise (AttributeError ''Measurement'') :: unit prog)))
             (seq (when_some (opt_power options) (\<lambda>v.
                     call_run srv ''Measurement.SetLaserPower''
                       [(''handle'', handle), (''power'', JFloat v)]))
             (if opt_get_laserpowers options then
                bind (call_run srv ''Measurement.GetLaserPowers'' [(''handle'', handle)]) (\<lambda>powers.
                seq (print_out (OutPowers powers))
               (seq (call_run srv ''Queue.Remove'' [(''handle'', handle)])
               (ret 0)))
              else
                seq (call_run srv ''Queue.Continue'' [(''handle'', handle)])
               (bind (wait_run srv handle 10000) (\<lambda>status.
                seq (when_true (status \<noteq> JStr ''COMPLETE'')
                       (seq (print_err (OutTimedOut status))
                       (seq (call_run srv ''Queue.Abort'' [(''handle'', handle)])
                       (sleep 500))))
               (seq (call_run srv ''Queue.Remove'' [(''handle'', handle)])
               (ret 0)))))))))))
               (init_run (opt_url options))
           of (r, s) \<Rightarrow> (r, trace s)))"

section \<open>\<^verbatim>\<open>ecm_custom.py\<close>: \<open>main\<close>\<close>

text \<open>
  \<^verbatim>\<open>"{0:.3g}".format(value)\<close> takes a number: an \<open>int\<close> (a \<open>bool\<close> is one) is
  converted to a double first, which overflows from \<open>2 ^ 1024 - 2 ^ 970\<close> on; a string
  is a \<open>ValueError\<close>, anything else a \<open>TypeError\<close>.
\<close>

fun print_power :: "json \<Rightarrow> unit prog" where
  "print_power (JInt n) =
     (if \<bar>n\<bar> < 2 ^ 1024 - 2 ^ 970 then print_out (OutPower (JInt n)) else raise OverflowError)"
| "print_power (JBool b) = print_out (OutPower (JBool b))"
| "print_power (JFloat x) = print_out (OutPower (JFloat x))"
| "print_power (JStr t) = raise ValueError"
| "print_power v = raise TypeError"

fun for_each :: "('a \<Rightarrow> unit prog) \<Rightarrow> 'a list \<Rightarrow> unit prog" where
  "for_each f [] = ret ()"
| "for_each f (x # xs) = seq (f x) (for_each f xs)"

text \<open>
  \<^verbatim>\<open>for value in powers: print("{0:.3g}".format(value))\<close>: a list gives its elements,
  a string its characters and a dict its keys (strings both), anything else is not
  iterable.
\<close>

fun print_powers :: "json \<Rightarrow> unit prog" where
  "print_powers (JArr vs) = for_each print_power vs"
| "print_powers (JStr t) = for_each print_power (map (\<lambda>c. JStr [c]) t)"
| "print_powers (JObj kvs) = for_each print_power (map (\<lambda>kv. JStr (fst kv)) kvs)"
| "print_powers v = raise TypeError"

text \<open>\<^verbatim>\<open>ecm.debug = True\<close>\<close>

definition set_debug :: "unit prog" where
  "set_debug = (\<lambda>s. (Inr (), s\<lparr>ecm := (ecm s)\<lparr>debug := True\<rparr>\<rparr>))"

text \<open>The keyword arguments \<^verbatim>\<open>handle=handle, **options.whitelight\<close>.\<close>

definition whitelight_kwargs :: "json \<Rightarrow> whitelight \<Rightarrow> (string \<times> json) list" where
  "whitelight_kwargs handle w =
     [(''handle'', handle), (''Image'', JStr (Image w)), (''Objective'', JFloat (Objective w)),
      (''XPosition'', JFloat (XPosition w)), (''YPosition'', JFloat (YPosition w)),
      (''XFieldOfView'', JFloat (XFieldOfView w)), (''YFieldOfView'', JFloat (YFieldOfView w))]"

definition main_custom :: "server \<Rightarrow> (string \<Rightarrow> string option) \<Rightarrow> cli \<Rightarrow> (exn + int) \<times> event list" where
  "main_custom srv files args =
     (let options = parse_args_custom args in
      case
        (seq (when_true (opt_debug options) set_debug)
        (case opt_send_trigger options of
           Some h \<Rightarrow>
             seq (call_custom srv ''Measurement.Trigger'' [(''handle'', JInt h)])
                 (ret 0)
         | None \<Rightarrow>
             bind (read_template files (opt_template options)) (\<lambda>template_xml.
             bind (call_custom srv ''Queue.Add''
                     [(''paused'', JBool True), (''monitor'', JBool False),
                      (''wxmString'', JStr template_xml)]) (\<lambda>handle.
             seq (when_some (opt_exposure options) (\<lambda>v.
                    call_custom srv ''Measurement.SetExposure''
                      [(''handle'', handle), (''exposure'', JInt v)]))
            (seq (when_some (opt_filename options) (\<lambda>v.
                    call_custom srv ''Measurement.SetFilename''
                      [(''handle'', handle), (''filename'', JStr v)]))
            (seq (when_some (opt_accumulations options) (\<lambda>v.
                    call_custom srv ''Measurement.SetAccumulations''
                      [(''handle'', handle), (''accumulations'', JInt v)]))
            (seq (when_some (opt_power options) (\<lambda>v.
                    call_custom srv ''Measurement.SetLaserPower''
                      [(''handle'', handle), (''power'', JFloat v)]))
            (if opt_get_laserpowers options then
               bind (call_custom srv ''Measurement.GetLaserPowers'' [(''handle'', handle)]) (\<lambda>powers.
               seq (print_powers powers)
              (seq (call_custom srv ''Queue.Remove'' [(''handle'', handle)])
              (ret 0)))
             else
               seq (when_some (opt_whitelight options) (\<lambda>v.
                      call_custom srv ''Measurement.SetImage'' (whitelight_kwargs handle v)))
              (seq (when_some (opt_map options) (\<lambda>v.
                      call_custom srv ''Measurement.SetMap''
                        [(''handle'', handle), (''rectangleParam'', JArr v)]))
              (seq (when_some (opt_series options) (\<lambda>v.
                      call_custom srv ''Measurement.SetMap''
                        [(''handle'', handle), (''seriesParam'', JArr v)]))
              (seq (when_some (opt_custom options) (\<lambda>v.
                      call_custom srv ''Measurement.SetMapCustomAxis''
                        [(''handle'', handle), (''custom_axes'', JArr v)]))
              (seq (when_some (opt_stage options) (\<lambda>v.
                      call_custom srv ''Measurement.SetMapUseStage''
                        [(''handle'', handle), (''use_stage'', JBool v)]))
              (seq (when_true (opt_triggers options)
                      (call_custom srv ''Measurement.SetMapTriggerMode''
                        [(''handle'', handle), (''mode'', JStr ''TCP_IP'')]))
              (seq (call_custom srv ''Queue.Continue'' [(''handle'', handle)])
              (bind (wait_custom srv handle (opt_timeout options)) (\<lambda>status.
               seq (when_true (status \<noteq> JStr ''COMPLETE'')
                      (seq (print_err (OutTimedOut status))
                      (seq (call_custom srv ''Queue.Abort'' [(''handle'', handle)])
                      (sleep 500))))
              (seq (call_custom srv ''Queue.Remove'' [(''handle'', handle)])
              (ret 0))))))))))))))))))
          (init_custom (opt_url options))
      of (r, s) \<Rightarrow> (r, trace s))"

section \<open>Reading a trace\<close>

fun posts :: "event list \<Rightarrow> request list" where
  "posts [] = []"
| "posts (Post r # tr) = r # posts tr"
| "posts (e # tr) = posts tr"

fun sleeps :: "event list \<Rightarrow> nat list" where
  "sleeps [] = []"
| "sleeps (Sleep n # tr) = n # sleeps tr"
| "sleeps (e # tr) = sleeps tr"

definition methods :: "event list \<Rightarrow> string list" where
  "methods tr = map (\<lambda>r. rpc_method (post_json r)) (posts tr)"

definition ids :: "event list \<Rightarrow> int list" where
  "ids tr = map (\<lambda>r. rpc_id (post_json r)) (posts tr)"

text \<open>How many status queries a trace holds.\<close>

definition status_queries :: "event list \<Rightarrow> nat" where
  "status_queries tr = count_list (methods tr) ''Queue.GetMeasurementState''"

section \<open>Stub servers\<close>

text \<open>
  A reply with status 200 whose body is a JSON-RPC result, and one whose body is a
  JSON-RPC error. The identifier in the body is never read by the scripts.
\<close>

definition result_reply :: "string \<Rightarrow> json \<Rightarrow> reply" where
  "result_reply text v = Response 200 text (Some (JObj [(''id'', JInt 0), (''result'', v)]))"

definition error_reply :: "string \<Rightarrow> int \<Rightarrow> string \<Rightarrow> reply" where
  "error_reply text code msg =
     Response 200 text
       (Some (JObj [(''id'', JInt 0),
                    (''error'', JObj [(''code'', JInt code), (''message'', JStr msg)])]))"

text \<open>
  A server that answers the \<open>n\<close>-th status query (counted from 0 over the whole
  trace) with \<open>script n\<close>, \<^verbatim>\<open>Queue.Add\<close> with the handle 7 and everything else, but the
  methods of \<open>failing\<close>, with \<open>true\<close>; a method of \<open>failing\<close> gets a JSON-RPC error.
\<close>

definition stub :: "(nat \<Rightarrow> reply) \<Rightarrow> string list \<Rightarrow> server" where
  "stub script failing tr req =
     (let m = rpc_method (post_json req) in
      if m = ''Queue.GetMeasurementState'' then script (status_queries tr)
      else if m \<in> set failing then error_reply ''error'' (- 32000) ''refused''
      else if m = ''Queue.Add'' then result_reply ''7'' (JInt 7)
      else result_reply ''true'' (JBool True))"

definition status_reply :: "string \<Rightarrow> reply" where
  "status_reply st = result_reply st (JStr st)"

text \<open>Status scripts: three times \<open>RUNNING\<close> then \<open>COMPLETE\<close>; a JSON-RPC error first, then
  \<open>COMPLETE\<close>.\<close>

definition c1_script :: "nat \<Rightarrow> string" where
  "c1_script n = (if n < 3 then ''RUNNING'' else ''COMPLETE'')"

definition busy_then_complete :: "nat \<Rightarrow> reply" where
  "busy_then_complete n =
     (if n = 0 then error_reply ''busy'' (- 32000) ''busy'' else status_reply ''COMPLETE'')"

text \<open>A timeout of less than one second, and more than none.\<close>

fun sub_second :: "pyfloat \<Rightarrow> bool" where
  "sub_second (Finite m e) = (0 < m \<and> (if 0 \<le> e then m * 2 ^ nat e < 1 else m < 2 ^ nat (- e)))"
| "sub_second _ = False"

text \<open>A command line with the template alone, and a file system with that template.\<close>

definition template_only :: cli where
  "template_only =
     \<lparr>arg_url = None, arg_template = Some ''template.wxm'', arg_filename = None,
      arg_exposure = None, arg_accumulations = None, arg_get_laserpowers = False,
      arg_power = None, arg_whitelight = None, arg_map = None, arg_series = None,
      arg_custom = None, arg_stage = [], arg_triggers = False, arg_send_trigger = None,
      arg_debug = False, arg_timeout = None\<rparr>"

definition one_file :: "string \<Rightarrow> string option" where
  "one_file p = (if p = ''template.wxm'' then Some ''<template/>'' else None)"

section \<open>Sequences of calls\<close>

text \<open>
  Any sequence of calls on one connection, each with its method and its keyword
  arguments, whatever each call returns or raises (the caller goes on, as \<open>wait\<close>
  does after an \<open>ECMException\<close>).
\<close>

fun calls_run :: "server \<Rightarrow> (string \<times> (string \<times> json) list) list \<Rightarrow> state \<Rightarrow> state" where
  "calls_run srv [] s = s"
| "calls_run srv ((m, kw) # cs) s = calls_run srv cs (snd (call_run srv m kw s))"

fun calls_custom :: "server \<Rightarrow> (string \<times> (string \<times> json) list) list \<Rightarrow> state \<Rightarrow> state" where
  "calls_custom srv [] s = s"
| "calls_custom srv ((m, kw) # cs) s = calls_custom srv cs (snd (call_custom srv m kw s))"

text \<open>The debugging line of \<open>wait\<close> in \<^verbatim>\<open>ecm_custom.py\<close>, as a step on the state.\<close>

definition note_status :: "json \<Rightarrow> state \<Rightarrow> state" where
  "note_status r s = (if debug (ecm s) then emit (Stdout (OutStatus r)) s else s)"


section \<open>What a session does\<close>

text \<open>
  What a trace shows of a session when the printed lines are left out: the method of
  each request and the length of each sleep, in order.
\<close>

datatype action = Call string | Pause nat

fun actions :: "event list \<Rightarrow> action list" where
  "actions [] = []"
| "actions (Post r # tr) = Call (rpc_method (post_json r)) # actions tr"
| "actions (Sleep n # tr) = Pause n # actions tr"
| "actions (e # tr) = actions tr"

text \<open>
  \<open>runs P m acts\<close>: from every state, \<open>m\<close> returns a value that satisfies \<open>P\<close> and adds
  exactly \<open>acts\<close> to the trace. \<open>fails e m acts\<close>: from every state, \<open>m\<close> raises \<open>e\<close>
  after adding exactly \<open>acts\<close>.
\<close>

definition runs :: "('a \<Rightarrow> bool) \<Rightarrow> 'a prog \<Rightarrow> action list \<Rightarrow> bool" where
  "runs P m acts =
     (\<forall>s. \<exists>x s'. m s = (Inr x, s') \<and> P x \<and> actions (trace s') = actions (trace s) @ acts)"

definition fails :: "exn \<Rightarrow> 'a prog \<Rightarrow> action list \<Rightarrow> bool" where
  "fails e m acts =
     (\<forall>s. \<exists>s'. m s = (Inl e, s') \<and> actions (trace s') = actions (trace s) @ acts)"

text \<open>
  The configuration calls of \<open>main\<close> in \<^verbatim>\<open>ecm_custom.py\<close> between \<^verbatim>\<open>Queue.Add\<close> and
  \<^verbatim>\<open>Queue.Continue\<close>, one for each option that is not \<open>None\<close> (or is set, for the
  trigger flag), in the order of the source.
\<close>

definition configuration :: "options \<Rightarrow> action list" where
  "configuration options =
     (if opt_exposure options = None then [] else [Call ''Measurement.SetExposure'']) @
     (if opt_filename options = None then [] else [Call ''Measurement.SetFilename'']) @
     (if opt_accumulations options = None then [] else [Call ''Measurement.SetAccumulations'']) @
     (if opt_power options = None then [] else [Call ''Measurement.SetLaserPower'']) @
     (if opt_whitelight options = None then [] else [Call ''Measurement.SetImage'']) @
     (if opt_map options = None then [] else [Call ''Measurement.SetMap'']) @
     (if opt_series options = None then [] else [Call ''Measurement.SetMap'']) @
     (if opt_custom options = None then [] else [Call ''Measurement.SetMapCustomAxis'']) @
     (if opt_stage options = None then [] else [Call ''Measurement.SetMapUseStage'']) @
     (if opt_triggers options then [Call ''Measurement.SetMapTriggerMode''] else [])"

section \<open>Traces of calls\<close>

declare wait_loop_run.simps [simp del] wait_loop_custom.simps [simp del]

lemma posts_append [simp]: "posts (xs @ ys) = posts xs @ posts ys"
  by (induction xs rule: posts.induct) auto

lemma sleeps_append [simp]: "sleeps (xs @ ys) = sleeps xs @ sleeps ys"
  by (induction xs rule: sleeps.induct) auto

lemma methods_append [simp]: "methods (xs @ ys) = methods xs @ methods ys"
  by (simp add: methods_def)

lemma ids_append [simp]: "ids (xs @ ys) = ids xs @ ids ys"
  by (simp add: ids_def)

lemma count_list_append [simp]: "count_list (xs @ ys) a = count_list xs a + count_list ys a"
  by (induction xs) auto

lemma status_queries_append [simp]:
  "status_queries (xs @ ys) = status_queries xs + status_queries ys"
  by (simp add: status_queries_def)

lemma trace_emit [simp]: "trace (emit e s) = trace s @ [e]"
  by (simp add: emit_def)

lemma ecm_emit [simp]: "ecm (emit e s) = ecm s"
  by (simp add: emit_def)

lemma call_run_ecm [simp]:
  "ecm (snd (call_run srv m kw s)) = (ecm s)\<lparr>next_id := next_id (ecm s) + 1\<rparr>"
  by (simp add: call_run_def Let_def split: reply.splits)

lemma call_run_posts [simp]:
  "posts (trace (snd (call_run srv m kw s))) = posts (trace s) @ [request_run (ecm s) m kw]"
  by (simp add: call_run_def Let_def split: reply.splits)

lemma call_run_sleeps [simp]:
  "sleeps (trace (snd (call_run srv m kw s))) = sleeps (trace s)"
  by (simp add: call_run_def Let_def split: reply.splits)

lemma call_custom_ecm [simp]:
  "ecm (snd (call_custom srv m kw s)) = (ecm s)\<lparr>next_id := next_id (ecm s) + 1\<rparr>"
  by (simp add: call_custom_def Let_def split: reply.splits)

lemma call_custom_posts [simp]:
  "posts (trace (snd (call_custom srv m kw s))) = posts (trace s) @ [request_custom (ecm s) m kw]"
  by (simp add: call_custom_def Let_def split: reply.splits)

lemma call_custom_sleeps [simp]:
  "sleeps (trace (snd (call_custom srv m kw s))) = sleeps (trace s)"
  by (simp add: call_custom_def Let_def split: reply.splits)

lemma ids_calls_run:
  "ids (trace (calls_run srv cs s)) =
     ids (trace s) @ map (\<lambda>i. next_id (ecm s) + int i) [0..<length cs]"
proof (induction cs arbitrary: s)
  case Nil
  then show ?case by simp
next
  case (Cons c cs)
  obtain m kw where c: "c = (m, kw)" by (cases c)
  have shift: "map (\<lambda>i. next_id (ecm s) + 1 + int i) [0..<length cs] =
      map (\<lambda>i. next_id (ecm s) + int i) [Suc 0..<Suc (length cs)]"
    by (simp add: map_Suc_upt[symmetric] del: upt_Suc)
  show ?case
    unfolding c
    apply (simp add: Cons.IH del: upt_Suc)
    apply (simp add: ids_def request_run_def shift upt_conv_Cons del: upt_Suc)
    done
qed


lemma wait_loop_run_stop:
  "status = JStr ''COMPLETE'' \<or> timeout \<le> 0 \<Longrightarrow>
   wait_loop_run srv h status timeout s = (Inr status, s)"
  by (subst wait_loop_run.simps) auto

lemma wait_loop_run_result:
  assumes "status \<noteq> JStr ''COMPLETE''" and "0 < timeout"
    and "fst (call_run srv ''Queue.GetMeasurementState'' [(''handle'', h)] s) = Inr r"
  shows "wait_loop_run srv h status timeout s =
         wait_loop_run srv h r (timeout - 250)
           (emit (Sleep 250) (snd (call_run srv ''Queue.GetMeasurementState'' [(''handle'', h)] s)))"
  using assms
  by (subst wait_loop_run.simps) (auto simp add: poll_run_def split: prod.splits)

lemma wait_loop_run_error:
  assumes "status \<noteq> JStr ''COMPLETE''" and "0 < timeout"
    and "fst (call_run srv ''Queue.GetMeasurementState'' [(''handle'', h)] s) = Inl (ECMException m)"
  shows "wait_loop_run srv h status timeout s =
         wait_loop_run srv h status (timeout - 250)
           (emit (Sleep 250) (emit (Stdout (OutException m))
              (snd (call_run srv ''Queue.GetMeasurementState'' [(''handle'', h)] s))))"
  using assms
  by (subst wait_loop_run.simps) (auto simp add: poll_run_def split: prod.splits)

lemma wait_loop_custom_stop:
  "status = JStr ''COMPLETE'' \<or> timeout \<le> 0 \<Longrightarrow>
   wait_loop_custom srv h status timeout s = (Inr status, s)"
  by (subst wait_loop_custom.simps) auto

lemma wait_loop_custom_result:
  assumes "status \<noteq> JStr ''COMPLETE''" and "0 < timeout"
    and "fst (call_custom srv ''Queue.GetMeasurementState'' [(''handle'', h)] s) = Inr r"
  shows "wait_loop_custom srv h status timeout s =
         wait_loop_custom srv h r (timeout - 250)
           (emit (Sleep 250) (note_status r
              (snd (call_custom srv ''Queue.GetMeasurementState'' [(''handle'', h)] s))))"
proof -
  obtain x2 where c: "call_custom srv ''Queue.GetMeasurementState'' [(''handle'', h)] s = (Inr r, x2)"
    using assms(3) by (cases "call_custom srv ''Queue.GetMeasurementState'' [(''handle'', h)] s") auto
  show ?thesis
    using assms(1,2)
    by (subst wait_loop_custom.simps) (simp add: c poll_custom_def note_status_def)
qed

lemma wait_loop_custom_error:
  assumes "status \<noteq> JStr ''COMPLETE''" and "0 < timeout"
    and "fst (call_custom srv ''Queue.GetMeasurementState'' [(''handle'', h)] s) = Inl (ECMException m)"
  shows "wait_loop_custom srv h status timeout s =
         wait_loop_custom srv h status (timeout - 250)
           (emit (Sleep 250) (emit (Stdout (OutException m))
              (snd (call_custom srv ''Queue.GetMeasurementState'' [(''handle'', h)] s))))"
  using assms
  by (subst wait_loop_custom.simps) (auto simp add: poll_custom_def split: prod.splits)

lemma ecm_note_status [simp]: "ecm (note_status r s) = ecm s"
  by (simp add: note_status_def)

lemma posts_note_status [simp]: "posts (trace (note_status r s)) = posts (trace s)"
  by (simp add: note_status_def)

lemma sleeps_note_status [simp]: "sleeps (trace (note_status r s)) = sleeps (trace s)"
  by (simp add: note_status_def)

lemma status_queries_call_run [simp]:
  "status_queries (trace (snd (call_run srv m kw s))) =
   status_queries (trace s) + (if m = ''Queue.GetMeasurementState'' then 1 else 0)"
  by (simp add: status_queries_def methods_def request_run_def)

lemma status_queries_call_custom [simp]:
  "status_queries (trace (snd (call_custom srv m kw s))) =
   status_queries (trace s) + (if m = ''Queue.GetMeasurementState'' then 1 else 0)"
  by (simp add: status_queries_def methods_def request_custom_def)

lemma status_queries_note_status [simp]:
  "status_queries (trace (note_status r s)) = status_queries (trace s)"
  by (simp add: status_queries_def methods_def)

lemma status_queries_Cons [simp]:
  "status_queries [] = 0"
  "status_queries (Sleep n # tr) = status_queries tr"
  "status_queries (Stdout x # tr) = status_queries tr"
  "status_queries (Stderr x # tr) = status_queries tr"
  "status_queries (Post r # tr) =
     (if rpc_method (post_json r) = ''Queue.GetMeasurementState'' then 1 else 0) +
     status_queries tr"
  by (simp_all add: status_queries_def methods_def)

lemma ids_calls_custom:
  "ids (trace (calls_custom srv cs s)) =
     ids (trace s) @ map (\<lambda>i. next_id (ecm s) + int i) [0..<length cs]"
proof (induction cs arbitrary: s)
  case Nil
  then show ?case by simp
next
  case (Cons c cs)
  obtain m kw where c: "c = (m, kw)" by (cases c)
  have shift: "map (\<lambda>i. next_id (ecm s) + 1 + int i) [0..<length cs] =
      map (\<lambda>i. next_id (ecm s) + int i) [Suc 0..<Suc (length cs)]"
    by (simp add: map_Suc_upt[symmetric] del: upt_Suc)
  show ?case
    unfolding c
    apply (simp add: Cons.IH del: upt_Suc)
    apply (simp add: ids_def request_custom_def shift upt_conv_Cons del: upt_Suc)
    done
qed

lemma call_run_stub_status:
  "fst (call_run (stub (\<lambda>n. status_reply (f n)) failing) ''Queue.GetMeasurementState'' kw s) =
   Inr (JStr (f (status_queries (trace s))))"
  by (simp add: call_run_def stub_def status_reply_def result_reply_def request_run_def
      rpc_result_def Let_def)

lemma call_custom_stub_status:
  "fst (call_custom (stub (\<lambda>n. status_reply (f n)) failing) ''Queue.GetMeasurementState'' kw s) =
   Inr (JStr (f (status_queries (trace s))))"
  by (simp add: call_custom_def stub_def status_reply_def result_reply_def request_custom_def
      rpc_result_def Let_def)

lemma call_run_stub_script:
  "fst (call_run (stub script failing) ''Queue.GetMeasurementState'' kw s) =
   (case script (status_queries (trace s)) of
      NoResponse \<Rightarrow> Inl RequestException
    | Response code text loaded \<Rightarrow>
        if code = 200 then rpc_result loaded else Inl (ECMException (JStr text)))"
  by (simp add: call_run_def stub_def request_run_def Let_def split: reply.splits)

lemma call_custom_stub_script:
  "fst (call_custom (stub script failing) ''Queue.GetMeasurementState'' kw s) =
   (case script (status_queries (trace s)) of
      NoResponse \<Rightarrow> Inl RequestException
    | Response code text loaded \<Rightarrow>
        if code = 200 then rpc_result loaded else Inl (ECMException (JStr text)))"
  by (simp add: call_custom_def stub_def request_custom_def Let_def split: reply.splits)

lemma rpc_result_replies [simp]:
  "rpc_result (Some (JObj [(''id'', i), (''result'', v)])) = Inr v"
  "rpc_result (Some (JObj [(''id'', i), (''error'', JObj [(''code'', c), (''message'', m)])])) =
     Inl (ECMException m)"
  by (simp_all add: rpc_result_def)

lemma wait_run_three_running:
  assumes H: "\<forall>s. fst (call_run srv ''Queue.GetMeasurementState'' [(''handle'', h)] s) =
          Inr (JStr (if status_queries (trace s) < status_queries (trace s0) + 3
                     then ''RUNNING'' else ''COMPLETE''))"
  shows "fst (wait_run srv h 1000 s0) = Inr (JStr ''COMPLETE'') \<and>
     status_queries (trace (snd (wait_run srv h 1000 s0))) = status_queries (trace s0) + 4 \<and>
     sleeps (trace (snd (wait_run srv h 1000 s0))) = sleeps (trace s0) @ [250, 250, 250, 250]"
proof -
  let ?q = "\<lambda>s. call_run srv ''Queue.GetMeasurementState'' [(''handle'', h)] s"
  define s1 where "s1 = emit (Sleep 250) (snd (?q s0))"
  define s2 where "s2 = emit (Sleep 250) (snd (?q s1))"
  define s3 where "s3 = emit (Sleep 250) (snd (?q s2))"
  define s4 where "s4 = emit (Sleep 250) (snd (?q s3))"
  have n1: "status_queries (trace s1) = status_queries (trace s0) + 1"
    by (simp add: s1_def)
  have n2: "status_queries (trace s2) = status_queries (trace s0) + 2"
    by (simp add: s2_def n1)
  have n3: "status_queries (trace s3) = status_queries (trace s0) + 3"
    by (simp add: s3_def n2)
  have n4: "status_queries (trace s4) = status_queries (trace s0) + 4"
    by (simp add: s4_def n3)
  have q0: "fst (?q s0) = Inr (JStr ''RUNNING'')" using H by simp
  have q1: "fst (?q s1) = Inr (JStr ''RUNNING'')" using H n1 by simp
  have q2: "fst (?q s2) = Inr (JStr ''RUNNING'')" using H n2 by simp
  have q3: "fst (?q s3) = Inr (JStr ''COMPLETE'')" using H n3 by simp
  have "wait_run srv h 1000 s0 = wait_loop_run srv h (JStr ''RUNNING'') 750 s1"
    unfolding wait_run_def s1_def using wait_loop_run_result [OF _ _ q0, of "JStr []" 1000] by simp
  also have "\<dots> = wait_loop_run srv h (JStr ''RUNNING'') 500 s2"
    unfolding s2_def using wait_loop_run_result [OF _ _ q1, of "JStr ''RUNNING''" 750] by simp
  also have "\<dots> = wait_loop_run srv h (JStr ''RUNNING'') 250 s3"
    unfolding s3_def using wait_loop_run_result [OF _ _ q2, of "JStr ''RUNNING''" 500] by simp
  also have "\<dots> = wait_loop_run srv h (JStr ''COMPLETE'') 0 s4"
    unfolding s4_def using wait_loop_run_result [OF _ _ q3, of "JStr ''RUNNING''" 250] by simp
  also have "\<dots> = (Inr (JStr ''COMPLETE''), s4)"
    by (simp add: wait_loop_run_stop)
  finally have w: "wait_run srv h 1000 s0 = (Inr (JStr ''COMPLETE''), s4)" .
  have sl: "sleeps (trace s4) = sleeps (trace s0) @ [250, 250, 250, 250]"
    by (simp add: s4_def s3_def s2_def s1_def)
  show ?thesis
    by (simp add: w n4 sl)
qed

lemma wait_custom_three_running:
  assumes H: "\<forall>s. fst (call_custom srv ''Queue.GetMeasurementState'' [(''handle'', h)] s) =
          Inr (JStr (if status_queries (trace s) < status_queries (trace s0) + 3
                     then ''RUNNING'' else ''COMPLETE''))"
  shows "fst (wait_custom srv h 1000 s0) = Inr (JStr ''COMPLETE'') \<and>
     status_queries (trace (snd (wait_custom srv h 1000 s0))) = status_queries (trace s0) + 4 \<and>
     sleeps (trace (snd (wait_custom srv h 1000 s0))) =
       sleeps (trace s0) @ [250, 250, 250, 250, 250]"
proof -
  let ?q = "\<lambda>s. call_custom srv ''Queue.GetMeasurementState'' [(''handle'', h)] s"
  define i where "i = emit (Sleep 250) s0"
  define s1 where "s1 = emit (Sleep 250) (note_status (JStr ''RUNNING'') (snd (?q i)))"
  define s2 where "s2 = emit (Sleep 250) (note_status (JStr ''RUNNING'') (snd (?q s1)))"
  define s3 where "s3 = emit (Sleep 250) (note_status (JStr ''RUNNING'') (snd (?q s2)))"
  define s4 where "s4 = emit (Sleep 250) (note_status (JStr ''COMPLETE'') (snd (?q s3)))"
  have n0: "status_queries (trace i) = status_queries (trace s0)"
    by (simp add: i_def)
  have n1: "status_queries (trace s1) = status_queries (trace s0) + 1"
    by (simp add: s1_def n0)
  have n2: "status_queries (trace s2) = status_queries (trace s0) + 2"
    by (simp add: s2_def n1)
  have n3: "status_queries (trace s3) = status_queries (trace s0) + 3"
    by (simp add: s3_def n2)
  have n4: "status_queries (trace s4) = status_queries (trace s0) + 4"
    by (simp add: s4_def n3)
  have q0: "fst (?q i) = Inr (JStr ''RUNNING'')" using H n0 by simp
  have q1: "fst (?q s1) = Inr (JStr ''RUNNING'')" using H n1 by simp
  have q2: "fst (?q s2) = Inr (JStr ''RUNNING'')" using H n2 by simp
  have q3: "fst (?q s3) = Inr (JStr ''COMPLETE'')" using H n3 by simp
  have "wait_custom srv h 1000 s0 = wait_loop_custom srv h (JStr ''RUNNING'') 750 s1"
    unfolding wait_custom_def s1_def i_def [symmetric]
    using wait_loop_custom_result [OF _ _ q0, of "JStr []" 1000] by simp
  also have "\<dots> = wait_loop_custom srv h (JStr ''RUNNING'') 500 s2"
    unfolding s2_def using wait_loop_custom_result [OF _ _ q1, of "JStr ''RUNNING''" 750] by simp
  also have "\<dots> = wait_loop_custom srv h (JStr ''RUNNING'') 250 s3"
    unfolding s3_def using wait_loop_custom_result [OF _ _ q2, of "JStr ''RUNNING''" 500] by simp
  also have "\<dots> = wait_loop_custom srv h (JStr ''COMPLETE'') 0 s4"
    unfolding s4_def using wait_loop_custom_result [OF _ _ q3, of "JStr ''RUNNING''" 250] by simp
  also have "\<dots> = (Inr (JStr ''COMPLETE''), s4)"
    by (simp add: wait_loop_custom_stop)
  finally have w: "wait_custom srv h 1000 s0 = (Inr (JStr ''COMPLETE''), s4)" .
  have sl: "sleeps (trace s4) = sleeps (trace s0) @ [250, 250, 250, 250, 250]"
    by (simp add: s4_def s3_def s2_def s1_def i_def)
  show ?thesis
    by (simp add: w n4 sl)
qed

lemma wait_loop_run_not_complete:
  assumes "status \<noteq> JStr ''COMPLETE''" and "0 < timeout"
    and "(\<exists>r. fst (call_run srv ''Queue.GetMeasurementState'' [(''handle'', h)] s) = Inr r \<and>
              r \<noteq> JStr ''COMPLETE'') \<or>
         (\<exists>m. fst (call_run srv ''Queue.GetMeasurementState'' [(''handle'', h)] s) =
              Inl (ECMException m))"
  shows "\<exists>status' s'. wait_loop_run srv h status timeout s =
             wait_loop_run srv h status' (timeout - 250) s' \<and>
           status' \<noteq> JStr ''COMPLETE'' \<and>
           status_queries (trace s') = status_queries (trace s) + 1 \<and>
           sleeps (trace s') = sleeps (trace s) @ [250]"
  using assms(3)
proof (elim disjE exE conjE)
  fix r
  assume r: "fst (call_run srv ''Queue.GetMeasurementState'' [(''handle'', h)] s) = Inr r"
    and n: "r \<noteq> JStr ''COMPLETE''"
  show ?thesis
    using wait_loop_run_result [OF assms(1,2) r] n
    by (intro exI [of _ r] exI conjI) (assumption, simp_all)
next
  fix m
  assume m: "fst (call_run srv ''Queue.GetMeasurementState'' [(''handle'', h)] s) =
      Inl (ECMException m)"
  show ?thesis
    using wait_loop_run_error [OF assms(1,2) m] assms(1)
    by (intro exI [of _ status] exI conjI) (assumption, simp_all)
qed

lemma wait_run_never_complete:
  assumes H: "\<forall>s. (\<exists>r. fst (call_run srv ''Queue.GetMeasurementState'' [(''handle'', h)] s) = Inr r \<and>
                   r \<noteq> JStr ''COMPLETE'') \<or>
              (\<exists>m. fst (call_run srv ''Queue.GetMeasurementState'' [(''handle'', h)] s) =
                   Inl (ECMException m))"
  shows "(\<exists>status. fst (wait_run srv h 500 s0) = Inr status \<and> status \<noteq> JStr ''COMPLETE'') \<and>
     status_queries (trace (snd (wait_run srv h 500 s0))) = status_queries (trace s0) + 2 \<and>
     sleeps (trace (snd (wait_run srv h 500 s0))) = sleeps (trace s0) @ [250, 250]"
proof -
  obtain st1 s1 where 1: "wait_loop_run srv h (JStr []) 500 s0 = wait_loop_run srv h st1 250 s1"
      "st1 \<noteq> JStr ''COMPLETE''" "status_queries (trace s1) = status_queries (trace s0) + 1"
      "sleeps (trace s1) = sleeps (trace s0) @ [250]"
    using wait_loop_run_not_complete [of "JStr []" 500 srv h s0] H by auto
  obtain st2 s2 where 2: "wait_loop_run srv h st1 250 s1 = wait_loop_run srv h st2 0 s2"
      "st2 \<noteq> JStr ''COMPLETE''" "status_queries (trace s2) = status_queries (trace s1) + 1"
      "sleeps (trace s2) = sleeps (trace s1) @ [250]"
    using wait_loop_run_not_complete [of st1 250 srv h s1] H 1(2) by auto
  have "wait_run srv h 500 s0 = (Inr st2, s2)"
    by (simp add: wait_run_def 1(1) 2(1) wait_loop_run_stop)
  then show ?thesis
    using 1 2 by simp
qed

lemma wait_loop_custom_not_complete:
  assumes "status \<noteq> JStr ''COMPLETE''" and "0 < timeout"
    and "(\<exists>r. fst (call_custom srv ''Queue.GetMeasurementState'' [(''handle'', h)] s) = Inr r \<and>
              r \<noteq> JStr ''COMPLETE'') \<or>
         (\<exists>m. fst (call_custom srv ''Queue.GetMeasurementState'' [(''handle'', h)] s) =
              Inl (ECMException m))"
  shows "\<exists>status' s'. wait_loop_custom srv h status timeout s =
             wait_loop_custom srv h status' (timeout - 250) s' \<and>
           status' \<noteq> JStr ''COMPLETE'' \<and>
           status_queries (trace s') = status_queries (trace s) + 1 \<and>
           sleeps (trace s') = sleeps (trace s) @ [250]"
  using assms(3)
proof (elim disjE exE conjE)
  fix r
  assume r: "fst (call_custom srv ''Queue.GetMeasurementState'' [(''handle'', h)] s) = Inr r"
    and n: "r \<noteq> JStr ''COMPLETE''"
  show ?thesis
    using wait_loop_custom_result [OF assms(1,2) r] n
    by (intro exI [of _ r] exI conjI) (assumption, simp_all)
next
  fix m
  assume m: "fst (call_custom srv ''Queue.GetMeasurementState'' [(''handle'', h)] s) =
      Inl (ECMException m)"
  show ?thesis
    using wait_loop_custom_error [OF assms(1,2) m] assms(1)
    by (intro exI [of _ status] exI conjI) (assumption, simp_all)
qed

lemma wait_custom_never_complete:
  assumes H: "\<forall>s. (\<exists>r. fst (call_custom srv ''Queue.GetMeasurementState'' [(''handle'', h)] s) = Inr r \<and>
                   r \<noteq> JStr ''COMPLETE'') \<or>
              (\<exists>m. fst (call_custom srv ''Queue.GetMeasurementState'' [(''handle'', h)] s) =
                   Inl (ECMException m))"
  shows "(\<exists>status. fst (wait_custom srv h 500 s0) = Inr status \<and> status \<noteq> JStr ''COMPLETE'') \<and>
     status_queries (trace (snd (wait_custom srv h 500 s0))) = status_queries (trace s0) + 2 \<and>
     sleeps (trace (snd (wait_custom srv h 500 s0))) = sleeps (trace s0) @ [250, 250, 250]"
proof -
  obtain st1 s1 where 1: "wait_loop_custom srv h (JStr []) 500 (emit (Sleep 250) s0) =
        wait_loop_custom srv h st1 250 s1"
      "st1 \<noteq> JStr ''COMPLETE''" "status_queries (trace s1) = status_queries (trace s0) + 1"
      "sleeps (trace s1) = sleeps (trace s0) @ [250, 250]"
    using wait_loop_custom_not_complete [of "JStr []" 500 srv h "emit (Sleep 250) s0"] H by auto
  obtain st2 s2 where 2: "wait_loop_custom srv h st1 250 s1 = wait_loop_custom srv h st2 0 s2"
      "st2 \<noteq> JStr ''COMPLETE''" "status_queries (trace s2) = status_queries (trace s1) + 1"
      "sleeps (trace s2) = sleeps (trace s1) @ [250]"
    using wait_loop_custom_not_complete [of st1 250 srv h s1] H 1(2) by auto
  have "wait_custom srv h 500 s0 = (Inr st2, s2)"
    by (simp add: wait_custom_def 1(1) 2(1) wait_loop_custom_stop)
  then show ?thesis
    using 1 2 by simp
qed

lemma wait_run_error_then_complete:
  assumes t: "250 < timeout"
    and e: "fst (call_run srv ''Queue.GetMeasurementState'' [(''handle'', h)] s) =
              Inl (ECMException m)"
    and c: "fst (call_run srv ''Queue.GetMeasurementState'' [(''handle'', h)]
              (emit (Sleep 250) (emit (Stdout (OutException m))
                (snd (call_run srv ''Queue.GetMeasurementState'' [(''handle'', h)] s))))) =
              Inr (JStr ''COMPLETE'')"
  shows "fst (wait_run srv h timeout s) = Inr (JStr ''COMPLETE'') \<and>
     Stdout (OutException m) \<in> set (trace (snd (wait_run srv h timeout s))) \<and>
     status_queries (trace (snd (wait_run srv h timeout s))) = status_queries (trace s) + 2 \<and>
     sleeps (trace (snd (wait_run srv h timeout s))) = sleeps (trace s) @ [250, 250]"
proof -
  let ?q = "\<lambda>s. call_run srv ''Queue.GetMeasurementState'' [(''handle'', h)] s"
  define s1 where "s1 = emit (Sleep 250) (emit (Stdout (OutException m)) (snd (?q s)))"
  define s2 where "s2 = emit (Sleep 250) (snd (?q s1))"
  have "wait_run srv h timeout s = wait_loop_run srv h (JStr []) (timeout - 250) s1"
    unfolding wait_run_def s1_def using wait_loop_run_error [OF _ _ e, of "JStr []" timeout] t by simp
  also have "\<dots> = wait_loop_run srv h (JStr ''COMPLETE'') (timeout - 250 - 250) s2"
    unfolding s2_def
    using wait_loop_run_result [OF _ _ c [folded s1_def], of "JStr []" "timeout - 250"] t by simp
  also have "\<dots> = (Inr (JStr ''COMPLETE''), s2)"
    by (simp add: wait_loop_run_stop)
  finally have w: "wait_run srv h timeout s = (Inr (JStr ''COMPLETE''), s2)" .
  have tr: "trace s1 = trace (snd (?q s)) @ [Stdout (OutException m), Sleep 250]"
    by (simp add: s1_def)
  have p: "Stdout (OutException m) \<in> set (trace s2)"
    by (simp add: s2_def call_run_def Let_def tr split: reply.splits)
  show ?thesis
    by (simp add: w p) (simp add: s2_def s1_def)
qed

lemma wait_custom_error_then_complete:
  assumes t: "250 < timeout"
    and e: "fst (call_custom srv ''Queue.GetMeasurementState'' [(''handle'', h)]
              (emit (Sleep 250) s)) = Inl (ECMException m)"
    and c: "fst (call_custom srv ''Queue.GetMeasurementState'' [(''handle'', h)]
              (emit (Sleep 250) (emit (Stdout (OutException m))
                (snd (call_custom srv ''Queue.GetMeasurementState'' [(''handle'', h)]
                   (emit (Sleep 250) s)))))) =
              Inr (JStr ''COMPLETE'')"
  shows "fst (wait_custom srv h timeout s) = Inr (JStr ''COMPLETE'') \<and>
     Stdout (OutException m) \<in> set (trace (snd (wait_custom srv h timeout s))) \<and>
     status_queries (trace (snd (wait_custom srv h timeout s))) = status_queries (trace s) + 2 \<and>
     sleeps (trace (snd (wait_custom srv h timeout s))) = sleeps (trace s) @ [250, 250, 250]"
proof -
  let ?q = "\<lambda>s. call_custom srv ''Queue.GetMeasurementState'' [(''handle'', h)] s"
  define s1 where "s1 = emit (Sleep 250) (emit (Stdout (OutException m))
      (snd (?q (emit (Sleep 250) s))))"
  define s2 where "s2 = emit (Sleep 250) (note_status (JStr ''COMPLETE'') (snd (?q s1)))"
  have "wait_custom srv h timeout s = wait_loop_custom srv h (JStr []) (timeout - 250) s1"
    unfolding wait_custom_def s1_def
    using wait_loop_custom_error [OF _ _ e, of "JStr []" timeout] t by simp
  also have "\<dots> = wait_loop_custom srv h (JStr ''COMPLETE'') (timeout - 250 - 250) s2"
    unfolding s2_def
    using wait_loop_custom_result [OF _ _ c [folded s1_def], of "JStr []" "timeout - 250"] t by simp
  also have "\<dots> = (Inr (JStr ''COMPLETE''), s2)"
    by (simp add: wait_loop_custom_stop)
  finally have w: "wait_custom srv h timeout s = (Inr (JStr ''COMPLETE''), s2)" .
  have tr: "trace s1 = trace (snd (?q (emit (Sleep 250) s))) @ [Stdout (OutException m), Sleep 250]"
    by (simp add: s1_def)
  have p: "Stdout (OutException m) \<in> set (trace s2)"
    by (simp add: s2_def call_custom_def note_status_def Let_def tr split: reply.splits)
  show ?thesis
    by (simp add: w p) (simp add: s2_def s1_def)
qed

lemma rpc_result_error_object:
  assumes "map_of kvs ''error'' = Some (JObj err)" and "map_of err ''message'' = Some msg"
  shows "rpc_result (Some (JObj kvs)) = Inl (ECMException msg)"
proof -
  have "''error'' \<in> fst ` set kvs"
    using assms(1) by (metis map_of_eq_None_iff option.distinct(1))
  then show ?thesis
    using assms by (simp add: rpc_result_def)
qed

lemma calls_run_conn [simp]:
  "url (ecm (calls_run srv cs s)) = url (ecm s)"
  "headers (ecm (calls_run srv cs s)) = headers (ecm s)"
  by (induction cs arbitrary: s) auto

lemma calls_custom_conn [simp]:
  "url (ecm (calls_custom srv cs s)) = url (ecm s)"
  "headers (ecm (calls_custom srv cs s)) = headers (ecm s)"
  by (induction cs arbitrary: s) auto

section \<open>Running a session\<close>

lemma actions_append [simp]: "actions (xs @ ys) = actions xs @ actions ys"
  by (induction xs rule: actions.induct) auto

lemma actions_call_run [simp]:
  "actions (trace (snd (call_run srv m kw s))) = actions (trace s) @ [Call m]"
  by (simp add: call_run_def request_run_def Let_def split: reply.splits)

lemma actions_call_custom [simp]:
  "actions (trace (snd (call_custom srv m kw s))) = actions (trace s) @ [Call m]"
  by (simp add: call_custom_def request_custom_def Let_def split: reply.splits)

lemma actions_note_status [simp]: "actions (trace (note_status r s)) = actions (trace s)"
  by (simp add: note_status_def)

lemma runs_ret: "P x \<Longrightarrow> runs P (ret x) []"
  by (simp add: runs_def ret_def)

lemma runs_bind:
  assumes "runs P m a" and "\<And>x. P x \<Longrightarrow> runs Q (f x) b"
  shows "runs Q (bind m f) (a @ b)"
  unfolding runs_def
proof
  fix s
  obtain x s1 where 1: "m s = (Inr x, s1)" "P x" "actions (trace s1) = actions (trace s) @ a"
    using assms(1) unfolding runs_def by blast
  obtain y s2 where 2: "f x s1 = (Inr y, s2)" "Q y" "actions (trace s2) = actions (trace s1) @ b"
    using assms(2) [OF 1(2)] unfolding runs_def by blast
  show "\<exists>x s'. bind m f s = (Inr x, s') \<and> Q x \<and> actions (trace s') = actions (trace s) @ a @ b"
    using 1 2 by (simp add: bind_def)
qed

lemma runs_seq: "runs P m a \<Longrightarrow> runs Q k b \<Longrightarrow> runs Q (seq m k) (a @ b)"
  unfolding seq_def by (rule runs_bind)

lemma runs_discard: "runs P m a \<Longrightarrow> runs (\<lambda>_. True) (discard m) a"
  unfolding discard_def using runs_bind [of P m a "\<lambda>_. True" "\<lambda>_. ret ()" "[]"]
  by (simp add: runs_ret)

lemma runs_when_some:
  "(\<And>v. runs P (f v) a) \<Longrightarrow> runs (\<lambda>_. True) (when_some opt f) (if opt = None then [] else a)"
  by (cases opt) (auto simp add: when_some_def runs_ret intro: runs_discard)

lemma runs_when_true:
  "runs P m a \<Longrightarrow> runs (\<lambda>_. True) (when_true b m) (if b then a else [])"
  by (simp add: when_true_def runs_ret runs_discard)

lemma runs_sleep: "runs (\<lambda>_. True) (sleep n) [Pause n]"
  by (simp add: runs_def sleep_def)

lemma runs_print_err: "runs (\<lambda>_. True) (print_err x) []"
  by (simp add: runs_def print_err_def)

lemma runs_set_debug: "runs (\<lambda>_. True) set_debug []"
  by (simp add: runs_def set_debug_def)

lemma runs_read_template:
  "files p = Some text \<Longrightarrow> runs (\<lambda>t. t = text) (read_template files (Some p)) []"
  by (simp add: read_template_def runs_ret)

lemma runs_call_custom:
  assumes "\<And>s. \<exists>r. fst (call_custom srv m kw s) = Inr r"
  shows "runs (\<lambda>_. True) (call_custom srv m kw) [Call m]"
  unfolding runs_def
proof
  fix s
  obtain r where "fst (call_custom srv m kw s) = Inr r" using assms by blast
  then have "call_custom srv m kw s = (Inr r, snd (call_custom srv m kw s))"
    by (metis prod.collapse)
  then show "\<exists>x s'. call_custom srv m kw s = (Inr x, s') \<and> True \<and>
      actions (trace s') = actions (trace s) @ [Call m]"
    by (metis actions_call_custom)
qed

lemma runs_call_run:
  assumes "\<And>s. \<exists>r. fst (call_run srv m kw s) = Inr r"
  shows "runs (\<lambda>_. True) (call_run srv m kw) [Call m]"
  unfolding runs_def
proof
  fix s
  obtain r where "fst (call_run srv m kw s) = Inr r" using assms by blast
  then have "call_run srv m kw s = (Inr r, snd (call_run srv m kw s))"
    by (metis prod.collapse)
  then show "\<exists>x s'. call_run srv m kw s = (Inr x, s') \<and> True \<and>
      actions (trace s') = actions (trace s) @ [Call m]"
    by (metis actions_call_run)
qed

lemma fails_raise: "fails e (raise e) []"
  by (simp add: fails_def raise_def)

lemma fails_call_custom:
  assumes "\<And>s. fst (call_custom srv m kw s) = Inl e"
  shows "fails e (call_custom srv m kw) [Call m]"
  unfolding fails_def
proof
  fix s
  have "call_custom srv m kw s = (Inl e, snd (call_custom srv m kw s))"
    using assms by (metis prod.collapse)
  then show "\<exists>s'. call_custom srv m kw s = (Inl e, s') \<and>
      actions (trace s') = actions (trace s) @ [Call m]"
    by (metis actions_call_custom)
qed

lemma fails_bind:
  assumes "runs P m a" and "\<And>x. P x \<Longrightarrow> fails e (f x) b"
  shows "fails e (bind m f) (a @ b)"
  unfolding fails_def
proof
  fix s
  obtain x s1 where 1: "m s = (Inr x, s1)" "P x" "actions (trace s1) = actions (trace s) @ a"
    using assms(1) unfolding runs_def by blast
  obtain s2 where 2: "f x s1 = (Inl e, s2)" "actions (trace s2) = actions (trace s1) @ b"
    using assms(2) [OF 1(2)] unfolding fails_def by blast
  show "\<exists>s'. bind m f s = (Inl e, s') \<and> actions (trace s') = actions (trace s) @ a @ b"
    using 1 2 by (simp add: bind_def)
qed

lemma fails_seq: "runs P m a \<Longrightarrow> fails e k b \<Longrightarrow> fails e (seq m k) (a @ b)"
  unfolding seq_def by (rule fails_bind)

lemma fails_first: "fails e m a \<Longrightarrow> fails e (bind m f) a"
  unfolding fails_def bind_def
  by (metis (mono_tags, lifting) old.prod.case old.sum.simps(5))

lemma fails_seq_first: "fails e m a \<Longrightarrow> fails e (seq m k) a"
  unfolding seq_def by (rule fails_first)

lemma fails_discard: "fails e m a \<Longrightarrow> fails e (discard m) a"
  unfolding discard_def by (rule fails_first)

lemma fails_when_some: "fails e (f v) a \<Longrightarrow> fails e (when_some (Some v) f) a"
  by (simp add: when_some_def fails_discard)

lemma fails_when_true: "b \<Longrightarrow> fails e m a \<Longrightarrow> fails e (when_true b m) a"
  by (simp add: when_true_def fails_discard)

lemma runs_main:
  assumes "runs (\<lambda>x. x = v) m acts" and "trace s = []"
  shows "fst (case m s of (r, s') \<Rightarrow> (r, trace s')) = Inr v \<and>
         actions (snd (case m s of (r, s') \<Rightarrow> (r, trace s'))) = acts"
proof -
  obtain s' where "m s = (Inr v, s')" "actions (trace s') = actions (trace s) @ acts"
    using assms(1) unfolding runs_def by blast
  then show ?thesis by (simp add: assms(2))
qed

lemma fails_main:
  assumes "fails e m acts" and "trace s = []"
  shows "fst (case m s of (r, s') \<Rightarrow> (r, trace s')) = Inl e \<and>
         actions (snd (case m s of (r, s') \<Rightarrow> (r, trace s'))) = acts"
proof -
  obtain s' where "m s = (Inl e, s')" "actions (trace s') = actions (trace s) @ acts"
    using assms(1) unfolding fails_def by blast
  then show ?thesis by (simp add: assms(2))
qed

lemma runs_wait_custom_once:
  assumes q: "\<And>s. fst (call_custom srv ''Queue.GetMeasurementState'' [(''handle'', h)] s) = Inr r"
    and t: "0 < timeout" "r = JStr ''COMPLETE'' \<or> timeout \<le> 250"
  shows "runs (\<lambda>x. x = r) (wait_custom srv h timeout)
           [Pause 250, Call ''Queue.GetMeasurementState'', Pause 250]"
  unfolding runs_def
proof
  fix s
  let ?q = "\<lambda>s. call_custom srv ''Queue.GetMeasurementState'' [(''handle'', h)] s"
  define s1 where "s1 = emit (Sleep 250) (note_status r (snd (?q (emit (Sleep 250) s))))"
  have "wait_custom srv h timeout s = wait_loop_custom srv h r (timeout - 250) s1"
    unfolding wait_custom_def s1_def
    using wait_loop_custom_result [OF _ t(1) q, of "JStr []"] by simp
  also have "\<dots> = (Inr r, s1)"
    using t(2) by (simp add: wait_loop_custom_stop)
  finally show "\<exists>x s'. wait_custom srv h timeout s = (Inr x, s') \<and> x = r \<and>
      actions (trace s') =
        actions (trace s) @ [Pause 250, Call ''Queue.GetMeasurementState'', Pause 250]"
    by (simp add: s1_def)
qed

lemma runs_wait_custom_none:
  "timeout \<le> 0 \<Longrightarrow> runs (\<lambda>x. x = JStr '''') (wait_custom srv h timeout) [Pause 250]"
  by (simp add: runs_def wait_custom_def wait_loop_custom_stop)

lemma runs_when_true_quiet: "runs P m [] \<Longrightarrow> runs (\<lambda>_. True) (when_true b m) []"
  using runs_when_true [of P m "[]" b] by simp

lemma trace_init [simp]: "trace (init_run u) = []" "trace (init_custom u) = []"
  by (simp_all add: init_run_def init_custom_def)

lemma main_custom_session:
  assumes trig: "arg_send_trigger args = None" and lp: "\<not> arg_get_laserpowers args"
    and tpl: "arg_template args = Some path" "files path = Some xml"
    and ok: "\<And>m kw s. m \<noteq> ''Queue.GetMeasurementState'' \<Longrightarrow>
               \<exists>r. fst (call_custom srv m kw s) = Inr r"
    and w: "\<And>h. runs (\<lambda>x. x = status)
               (wait_custom srv h (opt_timeout (parse_args_custom args))) wacts"
  shows "fst (main_custom srv files args) = Inr 0 \<and>
         actions (snd (main_custom srv files args)) =
           Call ''Queue.Add'' # configuration (parse_args_custom args) @
           [Call ''Queue.Continue''] @ wacts @
           (if status \<noteq> JStr ''COMPLETE'' then [Call ''Queue.Abort'', Pause 500] else []) @
           [Call ''Queue.Remove'']"
proof -
  let ?o = "parse_args_custom args"
  have o: "opt_send_trigger ?o = None" "opt_get_laserpowers ?o = False"
      "opt_template ?o = Some path"
    using trig lp tpl by (simp_all add: parse_args_custom_def)
  have "fst (main_custom srv files args) = Inr 0 \<and>
        actions (snd (main_custom srv files args)) =
          [] @ [] @ [Call ''Queue.Add''] @
          (if opt_exposure ?o = None then [] else [Call ''Measurement.SetExposure'']) @
          (if opt_filename ?o = None then [] else [Call ''Measurement.SetFilename'']) @
          (if opt_accumulations ?o = None then [] else [Call ''Measurement.SetAccumulations'']) @
          (if opt_power ?o = None then [] else [Call ''Measurement.SetLaserPower'']) @
          (if opt_whitelight ?o = None then [] else [Call ''Measurement.SetImage'']) @
          (if opt_map ?o = None then [] else [Call ''Measurement.SetMap'']) @
          (if opt_series ?o = None then [] else [Call ''Measurement.SetMap'']) @
          (if opt_custom ?o = None then [] else [Call ''Measurement.SetMapCustomAxis'']) @
          (if opt_stage ?o = None then [] else [Call ''Measurement.SetMapUseStage'']) @
          (if opt_triggers ?o then [Call ''Measurement.SetMapTriggerMode''] else []) @
          [Call ''Queue.Continue''] @ wacts @
          (if status \<noteq> JStr ''COMPLETE''
           then [] @ [Call ''Queue.Abort''] @ [Pause 500] else []) @
          [Call ''Queue.Remove''] @ []"
    unfolding main_custom_def Let_def
    apply (simp only: o option.case if_False)
    apply (rule runs_main)
     apply (rule runs_seq)
      apply (rule runs_when_true_quiet)
      apply (rule runs_set_debug)
     apply (rule runs_bind)
      apply (rule runs_read_template [of files path xml], rule tpl(2))
     apply (rule runs_bind)
      apply (rule runs_call_custom)
      apply (rule ok, simp)
     apply (rule runs_seq, rule runs_when_some, rule runs_call_custom, rule ok, simp)
     apply (rule runs_seq, rule runs_when_some, rule runs_call_custom, rule ok, simp)
     apply (rule runs_seq, rule runs_when_some, rule runs_call_custom, rule ok, simp)
     apply (rule runs_seq, rule runs_when_some, rule runs_call_custom, rule ok, simp)
     apply (rule runs_seq, rule runs_when_some, rule runs_call_custom, rule ok, simp)
     apply (rule runs_seq, rule runs_when_some, rule runs_call_custom, rule ok, simp)
     apply (rule runs_seq, rule runs_when_some, rule runs_call_custom, rule ok, simp)
     apply (rule runs_seq, rule runs_when_some, rule runs_call_custom, rule ok, simp)
     apply (rule runs_seq, rule runs_when_some, rule runs_call_custom, rule ok, simp)
     apply (rule runs_seq, rule runs_when_true, rule runs_call_custom, rule ok, simp)
     apply (rule runs_seq, rule runs_call_custom, rule ok, simp)
     apply (rule runs_bind)
      apply (rule w)
     apply hypsubst
     apply (rule runs_seq)
      apply (rule runs_when_true)
      apply (rule runs_seq, rule runs_print_err)
      apply (rule runs_seq, rule runs_call_custom, rule ok, simp)
      apply (rule runs_sleep)
     apply (rule runs_seq, rule runs_call_custom, rule ok, simp)
     apply (rule runs_ret, simp)
    apply simp
    done
  then show ?thesis
    by (simp add: configuration_def)
qed

lemma call_custom_stub_ok:
  "m \<noteq> ''Queue.GetMeasurementState'' \<Longrightarrow> m \<notin> set failing \<Longrightarrow>
   \<exists>r. fst (call_custom (stub script failing) m kw s) = Inr r"
  by (simp add: call_custom_def stub_def request_custom_def result_reply_def Let_def)

lemma call_run_stub_ok:
  "m \<noteq> ''Queue.GetMeasurementState'' \<Longrightarrow> m \<notin> set failing \<Longrightarrow>
   \<exists>r. fst (call_run (stub script failing) m kw s) = Inr r"
  by (simp add: call_run_def stub_def request_run_def result_reply_def Let_def)

lemma call_custom_stub_refused:
  "m \<noteq> ''Queue.GetMeasurementState'' \<Longrightarrow> m \<in> set failing \<Longrightarrow>
   fst (call_custom (stub script failing) m kw s) = Inl (ECMException (JStr ''refused''))"
  by (simp add: call_custom_def stub_def request_custom_def error_reply_def Let_def)

lemma in_set_if_Nil [simp]:
  "x \<in> set (if c then [] else ys) \<longleftrightarrow> \<not> c \<and> x \<in> set ys"
  "x \<in> set (if c then ys else []) \<longleftrightarrow> c \<and> x \<in> set ys"
  by simp_all

lemma configuration_calls:
  "Call ''Queue.Abort'' \<notin> set (configuration options)"
  "Call ''Queue.Remove'' \<notin> set (configuration options)"
  "Call ''Queue.GetMeasurementState'' \<notin> set (configuration options)"
  by (simp_all add: configuration_def)

lemma main_custom_abort_fails:
  assumes trig: "arg_send_trigger args = None" and lp: "\<not> arg_get_laserpowers args"
    and tpl: "arg_template args = Some path" "files path = Some xml"
    and ok: "\<And>m kw s. m \<noteq> ''Queue.GetMeasurementState'' \<Longrightarrow> m \<noteq> ''Queue.Abort'' \<Longrightarrow>
               \<exists>r. fst (call_custom srv m kw s) = Inr r"
    and ab: "\<And>kw s. fst (call_custom srv ''Queue.Abort'' kw s) = Inl e"
    and w: "\<And>h. runs (\<lambda>x. x = status)
               (wait_custom srv h (opt_timeout (parse_args_custom args))) wacts"
    and st: "status \<noteq> JStr ''COMPLETE''"
  shows "fst (main_custom srv files args) = Inl e \<and>
         actions (snd (main_custom srv files args)) =
           Call ''Queue.Add'' # configuration (parse_args_custom args) @
           [Call ''Queue.Continue''] @ wacts @ [Call ''Queue.Abort'']"
proof -
  let ?o = "parse_args_custom args"
  have o: "opt_send_trigger ?o = None" "opt_get_laserpowers ?o = False"
      "opt_template ?o = Some path"
    using trig lp tpl by (simp_all add: parse_args_custom_def)
  have "fst (main_custom srv files args) = Inl e \<and>
        actions (snd (main_custom srv files args)) =
          [] @ [] @ [Call ''Queue.Add''] @
          (if opt_exposure ?o = None then [] else [Call ''Measurement.SetExposure'']) @
          (if opt_filename ?o = None then [] else [Call ''Measurement.SetFilename'']) @
          (if opt_accumulations ?o = None then [] else [Call ''Measurement.SetAccumulations'']) @
          (if opt_power ?o = None then [] else [Call ''Measurement.SetLaserPower'']) @
          (if opt_whitelight ?o = None then [] else [Call ''Measurement.SetImage'']) @
          (if opt_map ?o = None then [] else [Call ''Measurement.SetMap'']) @
          (if opt_series ?o = None then [] else [Call ''Measurement.SetMap'']) @
          (if opt_custom ?o = None then [] else [Call ''Measurement.SetMapCustomAxis'']) @
          (if opt_stage ?o = None then [] else [Call ''Measurement.SetMapUseStage'']) @
          (if opt_triggers ?o then [Call ''Measurement.SetMapTriggerMode''] else []) @
          [Call ''Queue.Continue''] @ wacts @ [] @ [Call ''Queue.Abort'']"
    unfolding main_custom_def Let_def
    apply (simp only: o option.case if_False)
    apply (rule fails_main)
     apply (rule fails_seq)
      apply (rule runs_when_true_quiet)
      apply (rule runs_set_debug)
     apply (rule fails_bind)
      apply (rule runs_read_template [of files path xml], rule tpl(2))
     apply (rule fails_bind)
      apply (rule runs_call_custom)
      apply (rule ok, simp, simp)
     apply (rule fails_seq, rule runs_when_some, rule runs_call_custom, rule ok, simp, simp)
     apply (rule fails_seq, rule runs_when_some, rule runs_call_custom, rule ok, simp, simp)
     apply (rule fails_seq, rule runs_when_some, rule runs_call_custom, rule ok, simp, simp)
     apply (rule fails_seq, rule runs_when_some, rule runs_call_custom, rule ok, simp, simp)
     apply (rule fails_seq, rule runs_when_some, rule runs_call_custom, rule ok, simp, simp)
     apply (rule fails_seq, rule runs_when_some, rule runs_call_custom, rule ok, simp, simp)
     apply (rule fails_seq, rule runs_when_some, rule runs_call_custom, rule ok, simp, simp)
     apply (rule fails_seq, rule runs_when_some, rule runs_call_custom, rule ok, simp, simp)
     apply (rule fails_seq, rule runs_when_some, rule runs_call_custom, rule ok, simp, simp)
     apply (rule fails_seq, rule runs_when_true, rule runs_call_custom, rule ok, simp, simp)
     apply (rule fails_seq, rule runs_call_custom, rule ok, simp, simp)
     apply (rule fails_bind)
      apply (rule w)
     apply hypsubst
     apply (rule fails_seq_first)
     apply (rule fails_when_true, rule st)
     apply (rule fails_seq, rule runs_print_err)
     apply (rule fails_seq_first)
     apply (rule fails_call_custom, rule ab)
    apply simp
    done
  then show ?thesis
    by (simp add: configuration_def)
qed

lemma parse_template_only [simp]:
  "opt_exposure (parse_args_custom (template_only\<lparr>arg_timeout := t\<rparr>)) = None"
  "opt_filename (parse_args_custom (template_only\<lparr>arg_timeout := t\<rparr>)) = None"
  "opt_accumulations (parse_args_custom (template_only\<lparr>arg_timeout := t\<rparr>)) = None"
  "opt_power (parse_args_custom (template_only\<lparr>arg_timeout := t\<rparr>)) = None"
  "opt_whitelight (parse_args_custom (template_only\<lparr>arg_timeout := t\<rparr>)) = None"
  "opt_map (parse_args_custom (template_only\<lparr>arg_timeout := t\<rparr>)) = None"
  "opt_series (parse_args_custom (template_only\<lparr>arg_timeout := t\<rparr>)) = None"
  "opt_custom (parse_args_custom (template_only\<lparr>arg_timeout := t\<rparr>)) = None"
  "opt_stage (parse_args_custom (template_only\<lparr>arg_timeout := t\<rparr>)) = Some True"
  "opt_triggers (parse_args_custom (template_only\<lparr>arg_timeout := t\<rparr>)) = False"
  "opt_timeout (parse_args_custom (template_only\<lparr>arg_timeout := t\<rparr>)) =
     (case t of None \<Rightarrow> 60000 | Some n \<Rightarrow> n)"
  by (simp_all add: parse_args_custom_def template_only_def)

lemma parse_template_only_plain [simp]:
  "configuration (parse_args_custom template_only) = [Call ''Measurement.SetMapUseStage'']"
  "opt_timeout (parse_args_custom template_only) = 60000"
  "opt_stage (parse_args_custom template_only) = Some True"
  by (simp_all add: parse_args_custom_def template_only_def configuration_def)

lemma main_run_accumulations:
  assumes p: "parse_args_run args = Inr options"
    and a: "opt_accumulations options = Some n"
    and tpl: "opt_template options = Some path" "files path = Some xml"
    and ok: "\<And>m kw s. m \<noteq> ''Queue.GetMeasurementState'' \<Longrightarrow>
               \<exists>r. fst (call_run srv m kw s) = Inr r"
  shows "fst (main_run srv files args) = Inl (AttributeError ''Measurement'') \<and>
         actions (snd (main_run srv files args)) =
           [Call ''Queue.Add''] @
           (if opt_exposure options = None then [] else [Call ''Measurement.SetExposure'']) @
           (if opt_filename options = None then [] else [Call ''Measurement.SetFilename'']) @
           [Call ''Measurement.SetAccumulations'']"
proof -
  have "fst (main_run srv files args) = Inl (AttributeError ''Measurement'') \<and>
        actions (snd (main_run srv files args)) =
          [] @ [Call ''Queue.Add''] @
          (if opt_exposure options = None then [] else [Call ''Measurement.SetExposure'']) @
          (if opt_filename options = None then [] else [Call ''Measurement.SetFilename'']) @
          [Call ''Measurement.SetAccumulations''] @ []"
    unfolding main_run_def
    apply (simp only: p a tpl sum.case)
    apply (rule fails_main)
     apply (rule fails_bind)
      apply (rule runs_read_template [of files path xml], rule tpl(2))
     apply (rule fails_bind)
      apply (rule runs_call_run, rule ok, simp)
     apply (rule fails_seq, rule runs_when_some, rule runs_call_run, rule ok, simp)
     apply (rule fails_seq, rule runs_when_some, rule runs_call_run, rule ok, simp)
     apply (rule fails_seq_first)
     apply (rule fails_when_some)
     apply (rule fails_seq, rule runs_call_run, rule ok, simp)
     apply (rule fails_raise)
    apply simp
    done
  then show ?thesis by simp
qed

lemma wait_loop_run_always:
  assumes q: "\<And>s. fst (call_run srv ''Queue.GetMeasurementState'' [(''handle'', h)] s) = Inr r"
    and r: "r \<noteq> JStr ''COMPLETE''"
  shows "status \<noteq> JStr ''COMPLETE'' \<Longrightarrow> 250 * int n < timeout \<Longrightarrow> timeout \<le> 250 * int (Suc n) \<Longrightarrow>
     \<exists>s'. wait_loop_run srv h status timeout s = (Inr r, s') \<and>
       actions (trace s') = actions (trace s) @
         concat (replicate (Suc n) [Call ''Queue.GetMeasurementState'', Pause 250])"
proof (induction n arbitrary: status timeout s)
  case 0
  let ?s1 = "emit (Sleep 250) (snd (call_run srv ''Queue.GetMeasurementState'' [(''handle'', h)] s))"
  have "wait_loop_run srv h status timeout s = wait_loop_run srv h r (timeout - 250) ?s1"
    using wait_loop_run_result [OF "0.prems"(1) _ q] "0.prems"(2) by simp
  also have "\<dots> = (Inr r, ?s1)"
    using "0.prems"(3) by (simp add: wait_loop_run_stop)
  finally show ?case by simp
next
  case (Suc n)
  let ?s1 = "emit (Sleep 250) (snd (call_run srv ''Queue.GetMeasurementState'' [(''handle'', h)] s))"
  have step: "wait_loop_run srv h status timeout s = wait_loop_run srv h r (timeout - 250) ?s1"
    using wait_loop_run_result [OF Suc.prems(1) _ q] Suc.prems(2) by simp
  obtain s' where "wait_loop_run srv h r (timeout - 250) ?s1 = (Inr r, s')"
      "actions (trace s') = actions (trace ?s1) @
         concat (replicate (Suc n) [Call ''Queue.GetMeasurementState'', Pause 250])"
    using Suc.IH [of r "timeout - 250" ?s1] r Suc.prems(2,3) by auto
  then show ?case
    by (simp add: step)
qed

lemma runs_wait_run_always:
  assumes q: "\<And>s. fst (call_run srv ''Queue.GetMeasurementState'' [(''handle'', h)] s) = Inr r"
    and r: "r \<noteq> JStr ''COMPLETE''"
  shows "runs (\<lambda>x. x = r) (wait_run srv h 10000)
           (concat (replicate 40 [Call ''Queue.GetMeasurementState'', Pause 250]))"
  unfolding runs_def wait_run_def
proof
  fix s
  have "\<exists>s'. wait_loop_run srv h (JStr []) 10000 s = (Inr r, s') \<and>
       actions (trace s') = actions (trace s) @
         concat (replicate (Suc 39) [Call ''Queue.GetMeasurementState'', Pause 250])"
    by (rule wait_loop_run_always [OF q r]) simp_all
  moreover have "(40::nat) = Suc 39" by simp
  ultimately show "\<exists>x s'. wait_loop_run srv h (JStr []) 10000 s = (Inr x, s') \<and> x = r \<and>
      actions (trace s') = actions (trace s) @
        concat (replicate 40 [Call ''Queue.GetMeasurementState'', Pause 250])"
    by metis
qed

lemma runs_when_none: "runs (\<lambda>_. True) (when_some None f) []"
  by (simp add: when_some_def runs_ret)

lemma main_run_session:
  assumes p: "parse_args_run args = Inr options"
    and acc: "opt_accumulations options = None"
    and lp: "\<not> opt_get_laserpowers options"
    and tpl: "opt_template options = Some path" "files path = Some xml"
    and ok: "\<And>m kw s. m \<noteq> ''Queue.GetMeasurementState'' \<Longrightarrow>
               \<exists>r. fst (call_run srv m kw s) = Inr r"
    and w: "\<And>h. runs (\<lambda>x. x = status) (wait_run srv h 10000) wacts"
  shows "fst (main_run srv files args) = Inr 0 \<and>
         actions (snd (main_run srv files args)) =
           [Call ''Queue.Add''] @
           (if opt_exposure options = None then [] else [Call ''Measurement.SetExposure'']) @
           (if opt_filename options = None then [] else [Call ''Measurement.SetFilename'']) @
           (if opt_power options = None then [] else [Call ''Measurement.SetLaserPower'']) @
           [Call ''Queue.Continue''] @ wacts @
           (if status \<noteq> JStr ''COMPLETE'' then [Call ''Queue.Abort'', Pause 500] else []) @
           [Call ''Queue.Remove'']"
proof -
  have lp': "opt_get_laserpowers options = False" using lp by simp
  have "fst (main_run srv files args) = Inr 0 \<and>
        actions (snd (main_run srv files args)) =
          [] @ [Call ''Queue.Add''] @
          (if opt_exposure options = None then [] else [Call ''Measurement.SetExposure'']) @
          (if opt_filename options = None then [] else [Call ''Measurement.SetFilename'']) @
          [] @
          (if opt_power options = None then [] else [Call ''Measurement.SetLaserPower'']) @
          [Call ''Queue.Continue''] @ wacts @
          (if status \<noteq> JStr ''COMPLETE''
           then [] @ [Call ''Queue.Abort''] @ [Pause 500] else []) @
          [Call ''Queue.Remove''] @ []"
    unfolding main_run_def
    apply (simp only: p acc lp' tpl sum.case if_False)
    apply (rule runs_main)
     apply (rule runs_bind)
      apply (rule runs_read_template [of files path xml], rule tpl(2))
     apply (rule runs_bind)
      apply (rule runs_call_run, rule ok, simp)
     apply (rule runs_seq, rule runs_when_some, rule runs_call_run, rule ok, simp)
     apply (rule runs_seq, rule runs_when_some, rule runs_call_run, rule ok, simp)
     apply (rule runs_seq, rule runs_when_none)
     apply (rule runs_seq, rule runs_when_some, rule runs_call_run, rule ok, simp)
     apply (rule runs_seq, rule runs_call_run, rule ok, simp)
     apply (rule runs_bind)
      apply (rule w)
     apply hypsubst
     apply (rule runs_seq)
      apply (rule runs_when_true)
      apply (rule runs_seq, rule runs_print_err)
      apply (rule runs_seq, rule runs_call_run, rule ok, simp)
      apply (rule runs_sleep)
     apply (rule runs_seq, rule runs_call_run, rule ok, simp)
     apply (rule runs_ret, simp)
    apply simp
    done
  then show ?thesis by simp
qed

lemma main_run_timeout_path:
  assumes "parse_args_run args = Inr options" and "opt_accumulations options = None"
    and "\<not> opt_get_laserpowers options"
    and "opt_template options = Some path" and "files path = Some xml"
    and q: "\<And>kw s. fst (call_run srv ''Queue.GetMeasurementState'' kw s) = Inr (JStr ''RUNNING'')"
    and ok: "\<And>m kw s. m \<noteq> ''Queue.GetMeasurementState'' \<Longrightarrow>
           \<exists>r. fst (call_run srv m kw s) = Inr r"
  shows "fst (main_run srv files args) = Inr 0 \<and>
    (\<exists>pre. actions (snd (main_run srv files args)) =
        pre @ [Call ''Queue.GetMeasurementState'', Pause 250,
               Call ''Queue.Abort'', Pause 500, Call ''Queue.Remove''] \<and>
      count_list pre (Call ''Queue.GetMeasurementState'') = 39 \<and>
      Call ''Queue.Abort'' \<notin> set pre \<and> Call ''Queue.Remove'' \<notin> set pre)"
proof -
  let ?round = "[Call ''Queue.GetMeasurementState'', Pause 250]"
  have w: "\<And>h. runs (\<lambda>x. x = JStr ''RUNNING'') (wait_run srv h 10000)
      (concat (replicate 40 ?round))"
    by (rule runs_wait_run_always) (simp_all add: q)
  note s = main_run_session [where files = files, OF assms(1-5) ok w]
  have e: "concat (replicate 40 ?round) = concat (replicate 39 ?round) @ ?round"
  proof -
    have "replicate (Suc 39) ?round = replicate 39 ?round @ [?round]"
      by (simp only: replicate_append_same replicate_Suc)
    moreover have "(40::nat) = Suc 39" by simp
    ultimately show ?thesis by (simp only: concat_append concat.simps append_Nil2)
  qed
  have c: "\<And>n. count_list (concat (replicate n ?round)) (Call ''Queue.GetMeasurementState'') = n"
  proof -
    fix n show "count_list (concat (replicate n ?round)) (Call ''Queue.GetMeasurementState'') = n"
      by (induction n) simp_all
  qed
  have m: "\<And>n. set (concat (replicate n ?round)) \<subseteq> set ?round"
  proof -
    fix n show "set (concat (replicate n ?round)) \<subseteq> set ?round"
      by (induction n) simp_all
  qed
  have n: "Call ''Queue.Abort'' \<notin> set (concat (replicate 39 ?round))"
      "Call ''Queue.Remove'' \<notin> set (concat (replicate 39 ?round))"
    using m [of 39] by auto
  let ?pre = "[Call ''Queue.Add''] @
           (if opt_exposure options = None then [] else [Call ''Measurement.SetExposure'']) @
           (if opt_filename options = None then [] else [Call ''Measurement.SetFilename'']) @
           (if opt_power options = None then [] else [Call ''Measurement.SetLaserPower'']) @
           [Call ''Queue.Continue''] @ concat (replicate 39 ?round)"
  have a: "actions (snd (main_run srv files args)) =
      ?pre @ [Call ''Queue.GetMeasurementState'', Pause 250,
              Call ''Queue.Abort'', Pause 500, Call ''Queue.Remove'']"
    using conjunct2 [OF s] by (simp add: e)
  have k: "count_list ?pre (Call ''Queue.GetMeasurementState'') = 39"
    by (simp add: c)
  have x: "Call ''Queue.Abort'' \<notin> set ?pre" "Call ''Queue.Remove'' \<notin> set ?pre"
    using n by (simp_all)
  show ?thesis
    using conjunct1 [OF s] a k x by blast
qed

section \<open>Request identifiers\<close>

text \<open>
  C5. For every sequence of \<open>N\<close> calls through one connection, in either script, the
  identifiers of the posted envelopes are \<open>0, 1, ..., N - 1\<close> in call order, whatever
  the server replies; so no identifier is used twice.
\<close>

theorem identifiers_count_up:
  "ids (trace (calls_run srv cs (init_run u))) = map int [0..<length cs] \<and>
   distinct (ids (trace (calls_run srv cs (init_run u)))) \<and>
   ids (trace (calls_custom srv cs (init_custom u))) = map int [0..<length cs] \<and>
   distinct (ids (trace (calls_custom srv cs (init_custom u))))"
proof -
  have r: "ids (trace (calls_run srv cs (init_run u))) = map int [0..<length cs]"
    by (simp add: ids_calls_run) (simp add: init_run_def ids_def)
  have c: "ids (trace (calls_custom srv cs (init_custom u))) = map int [0..<length cs]"
    by (simp add: ids_calls_custom) (simp add: init_custom_def ids_def)
  have d: "distinct (map int [0..<length cs])"
    by (simp add: distinct_map)
  show ?thesis
    using d by (simp add: r c)
qed

section \<open>The polling wait\<close>

text \<open>
  C1, as the code has it. When the status query returns \<open>RUNNING\<close> on its first three
  calls and \<open>COMPLETE\<close> from the fourth on, \<open>wait\<close> with a budget of 1000 returns
  \<open>COMPLETE\<close> after exactly 4 status queries. It sleeps 250 after every query, the
  fourth included: 4 sleeps in \<^verbatim>\<open>ecm_run.py\<close>, and 5 in \<^verbatim>\<open>ecm_custom.py\<close>, which
  sleeps once more before the first query.
\<close>

theorem wait_three_running_then_complete:
  "((\<forall>s. fst (call_run srv ''Queue.GetMeasurementState'' [(''handle'', h)] s) =
          Inr (JStr (if status_queries (trace s) < status_queries (trace s0) + 3
                     then ''RUNNING'' else ''COMPLETE''))) \<longrightarrow>
      fst (wait_run srv h 1000 s0) = Inr (JStr ''COMPLETE'') \<and>
      status_queries (trace (snd (wait_run srv h 1000 s0))) = status_queries (trace s0) + 4 \<and>
      sleeps (trace (snd (wait_run srv h 1000 s0))) = sleeps (trace s0) @ [250, 250, 250, 250]) \<and>
   ((\<forall>s. fst (call_custom srv ''Queue.GetMeasurementState'' [(''handle'', h)] s) =
          Inr (JStr (if status_queries (trace s) < status_queries (trace s0) + 3
                     then ''RUNNING'' else ''COMPLETE''))) \<longrightarrow>
      fst (wait_custom srv h 1000 s0) = Inr (JStr ''COMPLETE'') \<and>
      status_queries (trace (snd (wait_custom srv h 1000 s0))) = status_queries (trace s0) + 4 \<and>
      sleeps (trace (snd (wait_custom srv h 1000 s0))) =
        sleeps (trace s0) @ [250, 250, 250, 250, 250])"
  using wait_run_three_running [of srv h s0] wait_custom_three_running [of srv h s0]
  by blast

theorem wait_three_running_then_complete_witness:
  "fst (wait_run (stub (\<lambda>n. status_reply (c1_script n)) []) (JInt 7) 1000
          (init_run ''http://localhost:9880/api'')) = Inr (JStr ''COMPLETE'') \<and>
   status_queries (trace (snd (wait_run (stub (\<lambda>n. status_reply (c1_script n)) []) (JInt 7) 1000
          (init_run ''http://localhost:9880/api'')))) = 4 \<and>
   sleeps (trace (snd (wait_run (stub (\<lambda>n. status_reply (c1_script n)) []) (JInt 7) 1000
          (init_run ''http://localhost:9880/api'')))) = [250, 250, 250, 250] \<and>
   fst (wait_custom (stub (\<lambda>n. status_reply (c1_script n)) []) (JInt 7) 1000
          (init_custom ''http://localhost:9880/api/'')) = Inr (JStr ''COMPLETE'') \<and>
   status_queries (trace (snd (wait_custom (stub (\<lambda>n. status_reply (c1_script n)) []) (JInt 7) 1000
          (init_custom ''http://localhost:9880/api/'')))) = 4 \<and>
   sleeps (trace (snd (wait_custom (stub (\<lambda>n. status_reply (c1_script n)) []) (JInt 7) 1000
          (init_custom ''http://localhost:9880/api/'')))) = [250, 250, 250, 250, 250]"
proof -
  have e: "status_queries (trace (init_run ''http://localhost:9880/api'')) = 0"
      "status_queries (trace (init_custom ''http://localhost:9880/api/'')) = 0"
      "sleeps (trace (init_run ''http://localhost:9880/api'')) = []"
      "sleeps (trace (init_custom ''http://localhost:9880/api/'')) = []"
    by (simp_all add: init_run_def init_custom_def status_queries_def methods_def)
  show ?thesis
    using wait_three_running_then_complete
        [of "stub (\<lambda>n. status_reply (c1_script n)) []" "JInt 7" "init_run ''http://localhost:9880/api''"]
      wait_three_running_then_complete
        [of "stub (\<lambda>n. status_reply (c1_script n)) []" "JInt 7" "init_custom ''http://localhost:9880/api/''"]
    by (simp add: call_run_stub_status call_custom_stub_status c1_script_def e)
qed

text \<open>
  C1 as stated (exactly 3 sleeps) fails on \<^verbatim>\<open>ecm_run.py\<close> already: the stub server
  answers \<open>RUNNING\<close> three times, then \<open>COMPLETE\<close>, and the loop has slept 4 times.
\<close>

theorem wait_sleeps_three_counterexample:
  "\<not> (fst (wait_run (stub (\<lambda>n. status_reply (c1_script n)) []) (JInt 7) 1000
            (init_run ''http://localhost:9880/api'')) = Inr (JStr ''COMPLETE'') \<and>
      status_queries (trace (snd (wait_run (stub (\<lambda>n. status_reply (c1_script n)) []) (JInt 7) 1000
            (init_run ''http://localhost:9880/api'')))) = 4 \<and>
      sleeps (trace (snd (wait_run (stub (\<lambda>n. status_reply (c1_script n)) []) (JInt 7) 1000
            (init_run ''http://localhost:9880/api'')))) = [250, 250, 250])"
proof -
  have e: "status_queries (trace (init_run ''http://localhost:9880/api'')) = 0"
      "sleeps (trace (init_run ''http://localhost:9880/api'')) = []"
    by (simp_all add: init_run_def status_queries_def methods_def)
  have "sleeps (trace (snd (wait_run (stub (\<lambda>n. status_reply (c1_script n)) []) (JInt 7) 1000
            (init_run ''http://localhost:9880/api'')))) = [250, 250, 250, 250]"
    using wait_run_three_running
        [of "stub (\<lambda>n. status_reply (c1_script n)) []" "JInt 7" "init_run ''http://localhost:9880/api''"]
    by (simp add: call_run_stub_status c1_script_def e)
  then show ?thesis by simp
qed

text \<open>
  C2. When no status query returns \<open>COMPLETE\<close> (each returns another status or raises
  \<open>ECMException\<close>), \<open>wait\<close> with a budget of 500 returns a status that is not
  \<open>COMPLETE\<close> after exactly 2 status queries: two rounds of 250 use the budget up.
\<close>

theorem wait_never_complete_times_out:
  "((\<forall>s. (\<exists>r. fst (call_run srv ''Queue.GetMeasurementState'' [(''handle'', h)] s) = Inr r \<and>
              r \<noteq> JStr ''COMPLETE'') \<or>
         (\<exists>m. fst (call_run srv ''Queue.GetMeasurementState'' [(''handle'', h)] s) =
              Inl (ECMException m))) \<longrightarrow>
      (\<exists>status. fst (wait_run srv h 500 s0) = Inr status \<and> status \<noteq> JStr ''COMPLETE'') \<and>
      status_queries (trace (snd (wait_run srv h 500 s0))) = status_queries (trace s0) + 2 \<and>
      sleeps (trace (snd (wait_run srv h 500 s0))) = sleeps (trace s0) @ [250, 250]) \<and>
   ((\<forall>s. (\<exists>r. fst (call_custom srv ''Queue.GetMeasurementState'' [(''handle'', h)] s) = Inr r \<and>
              r \<noteq> JStr ''COMPLETE'') \<or>
         (\<exists>m. fst (call_custom srv ''Queue.GetMeasurementState'' [(''handle'', h)] s) =
              Inl (ECMException m))) \<longrightarrow>
      (\<exists>status. fst (wait_custom srv h 500 s0) = Inr status \<and> status \<noteq> JStr ''COMPLETE'') \<and>
      status_queries (trace (snd (wait_custom srv h 500 s0))) = status_queries (trace s0) + 2 \<and>
      sleeps (trace (snd (wait_custom srv h 500 s0))) = sleeps (trace s0) @ [250, 250, 250])"
  using wait_run_never_complete [of srv h s0] wait_custom_never_complete [of srv h s0]
  by blast

theorem wait_never_complete_times_out_witness:
  "(\<exists>status. fst (wait_run (stub (\<lambda>n. status_reply ''RUNNING'') []) (JInt 7) 500
        (init_run ''http://localhost:9880/api'')) = Inr status \<and> status \<noteq> JStr ''COMPLETE'') \<and>
   status_queries (trace (snd (wait_run (stub (\<lambda>n. status_reply ''RUNNING'') []) (JInt 7) 500
        (init_run ''http://localhost:9880/api'')))) = 2 \<and>
   sleeps (trace (snd (wait_run (stub (\<lambda>n. status_reply ''RUNNING'') []) (JInt 7) 500
        (init_run ''http://localhost:9880/api'')))) = [250, 250] \<and>
   (\<exists>status. fst (wait_custom (stub (\<lambda>n. status_reply ''RUNNING'') []) (JInt 7) 500
        (init_custom ''http://localhost:9880/api/'')) = Inr status \<and> status \<noteq> JStr ''COMPLETE'') \<and>
   status_queries (trace (snd (wait_custom (stub (\<lambda>n. status_reply ''RUNNING'') []) (JInt 7) 500
        (init_custom ''http://localhost:9880/api/'')))) = 2 \<and>
   sleeps (trace (snd (wait_custom (stub (\<lambda>n. status_reply ''RUNNING'') []) (JInt 7) 500
        (init_custom ''http://localhost:9880/api/'')))) = [250, 250, 250]"
proof -
  have e: "trace (init_run ''http://localhost:9880/api'') = []"
      "trace (init_custom ''http://localhost:9880/api/'') = []"
    by (simp_all add: init_run_def init_custom_def)
  have q: "\<And>s kw. fst (call_run (stub (\<lambda>n. status_reply ''RUNNING'') []) ''Queue.GetMeasurementState''
              kw s) = Inr (JStr ''RUNNING'')"
      "\<And>s kw. fst (call_custom (stub (\<lambda>n. status_reply ''RUNNING'') []) ''Queue.GetMeasurementState''
              kw s) = Inr (JStr ''RUNNING'')"
    by (simp_all add: call_run_stub_script call_custom_stub_script status_reply_def result_reply_def)
  show ?thesis
    using wait_never_complete_times_out
        [of "stub (\<lambda>n. status_reply ''RUNNING'') []" "JInt 7" "init_run ''http://localhost:9880/api''"]
      wait_never_complete_times_out
        [of "stub (\<lambda>n. status_reply ''RUNNING'') []" "JInt 7" "init_custom ''http://localhost:9880/api/''"]
    by (simp add: q e)
qed

text \<open>
  C3. An \<open>ECMException\<close> raised by a status query does not end \<open>wait\<close>: the loop
  prints it, sleeps and takes 250 from the budget, as it does after a status that is not
  \<open>COMPLETE\<close> (lemmas \<open>wait_loop_run_result\<close>, \<open>wait_loop_custom_result\<close>), and keeps
  the status it had. With a budget above 250, a first query that raises \<open>ECMException\<close>
  and a second one that returns \<open>COMPLETE\<close>, \<open>wait\<close> returns \<open>COMPLETE\<close> after 2 queries.
\<close>

theorem rpc_error_does_not_end_wait:
  "(status \<noteq> JStr ''COMPLETE'' \<and> 0 < timeout \<and>
    fst (call_run srv ''Queue.GetMeasurementState'' [(''handle'', h)] s) = Inl (ECMException m) \<longrightarrow>
      wait_loop_run srv h status timeout s =
        wait_loop_run srv h status (timeout - 250)
          (emit (Sleep 250) (emit (Stdout (OutException m))
             (snd (call_run srv ''Queue.GetMeasurementState'' [(''handle'', h)] s))))) \<and>
   (250 < timeout \<and>
    fst (call_run srv ''Queue.GetMeasurementState'' [(''handle'', h)] s) = Inl (ECMException m) \<and>
    fst (call_run srv ''Queue.GetMeasurementState'' [(''handle'', h)]
           (emit (Sleep 250) (emit (Stdout (OutException m))
              (snd (call_run srv ''Queue.GetMeasurementState'' [(''handle'', h)] s))))) =
      Inr (JStr ''COMPLETE'') \<longrightarrow>
      fst (wait_run srv h timeout s) = Inr (JStr ''COMPLETE'') \<and>
      Stdout (OutException m) \<in> set (trace (snd (wait_run srv h timeout s))) \<and>
      status_queries (trace (snd (wait_run srv h timeout s))) = status_queries (trace s) + 2 \<and>
      sleeps (trace (snd (wait_run srv h timeout s))) = sleeps (trace s) @ [250, 250]) \<and>
   (status \<noteq> JStr ''COMPLETE'' \<and> 0 < timeout \<and>
    fst (call_custom srv ''Queue.GetMeasurementState'' [(''handle'', h)] s) = Inl (ECMException m) \<longrightarrow>
      wait_loop_custom srv h status timeout s =
        wait_loop_custom srv h status (timeout - 250)
          (emit (Sleep 250) (emit (Stdout (OutException m))
             (snd (call_custom srv ''Queue.GetMeasurementState'' [(''handle'', h)] s))))) \<and>
   (250 < timeout \<and>
    fst (call_custom srv ''Queue.GetMeasurementState'' [(''handle'', h)] (emit (Sleep 250) s)) =
      Inl (ECMException m) \<and>
    fst (call_custom srv ''Queue.GetMeasurementState'' [(''handle'', h)]
           (emit (Sleep 250) (emit (Stdout (OutException m))
              (snd (call_custom srv ''Queue.GetMeasurementState'' [(''handle'', h)]
                     (emit (Sleep 250) s)))))) =
      Inr (JStr ''COMPLETE'') \<longrightarrow>
      fst (wait_custom srv h timeout s) = Inr (JStr ''COMPLETE'') \<and>
      Stdout (OutException m) \<in> set (trace (snd (wait_custom srv h timeout s))) \<and>
      status_queries (trace (snd (wait_custom srv h timeout s))) = status_queries (trace s) + 2 \<and>
      sleeps (trace (snd (wait_custom srv h timeout s))) = sleeps (trace s) @ [250, 250, 250])"
  using wait_loop_run_error [of status timeout srv h s m]
    wait_loop_custom_error [of status timeout srv h s m]
    wait_run_error_then_complete [of timeout srv h s m]
    wait_custom_error_then_complete [of timeout srv h s m]
  by blast

theorem rpc_error_does_not_end_wait_witness:
  "fst (wait_run (stub busy_then_complete []) (JInt 7) 1000
          (init_run ''http://localhost:9880/api'')) = Inr (JStr ''COMPLETE'') \<and>
   Stdout (OutException (JStr ''busy'')) \<in> set (trace (snd
     (wait_run (stub busy_then_complete []) (JInt 7) 1000 (init_run ''http://localhost:9880/api'')))) \<and>
   status_queries (trace (snd
     (wait_run (stub busy_then_complete []) (JInt 7) 1000 (init_run ''http://localhost:9880/api'')))) = 2 \<and>
   fst (wait_custom (stub busy_then_complete []) (JInt 7) 1000
          (init_custom ''http://localhost:9880/api/'')) = Inr (JStr ''COMPLETE'') \<and>
   Stdout (OutException (JStr ''busy'')) \<in> set (trace (snd
     (wait_custom (stub busy_then_complete []) (JInt 7) 1000
        (init_custom ''http://localhost:9880/api/'')))) \<and>
   status_queries (trace (snd
     (wait_custom (stub busy_then_complete []) (JInt 7) 1000
        (init_custom ''http://localhost:9880/api/'')))) = 2"
proof -
  have e: "trace (init_run ''http://localhost:9880/api'') = []"
      "trace (init_custom ''http://localhost:9880/api/'') = []"
    by (simp_all add: init_run_def init_custom_def)
  have q: "\<And>s kw. fst (call_run (stub busy_then_complete []) ''Queue.GetMeasurementState'' kw s) =
        (if status_queries (trace s) = 0 then Inl (ECMException (JStr ''busy''))
         else Inr (JStr ''COMPLETE''))"
      "\<And>s kw. fst (call_custom (stub busy_then_complete []) ''Queue.GetMeasurementState'' kw s) =
        (if status_queries (trace s) = 0 then Inl (ECMException (JStr ''busy''))
         else Inr (JStr ''COMPLETE''))"
    by (simp_all add: call_run_stub_script call_custom_stub_script busy_then_complete_def
        status_reply_def result_reply_def error_reply_def)
  show ?thesis
    using rpc_error_does_not_end_wait
        [of "JStr []" 1000 "stub busy_then_complete []" "JInt 7"
            "init_run ''http://localhost:9880/api''" "JStr ''busy''"]
      rpc_error_does_not_end_wait
        [of "JStr []" 1000 "stub busy_then_complete []" "JInt 7"
            "init_custom ''http://localhost:9880/api/''" "JStr ''busy''"]
    by (simp add: q e)
qed

section \<open>The call\<close>

text \<open>
  C6, as the code has it. \<open>call\<close> takes status 200 alone for success
  (\<^verbatim>\<open>res.status_code == requests.codes.ok\<close>). When the reply has status 200 and its
  decoded body is an object whose \<open>error\<close> is an object with a \<open>message\<close>, \<open>call\<close>
  raises \<open>ECMException\<close> with exactly that message and returns no result, whatever else
  the error object holds, its \<open>code\<close> included, and whatever else the body holds.
\<close>

theorem error_object_raises_message:
  "((\<forall>tr. srv tr (request_run (ecm s) methodName kwargs) = Response 200 text (Some (JObj kvs))) \<and>
    map_of kvs ''error'' = Some (JObj err) \<and> map_of err ''message'' = Some msg \<longrightarrow>
      fst (call_run srv methodName kwargs s) = Inl (ECMException msg)) \<and>
   ((\<forall>tr. srv tr (request_custom (ecm s) methodName kwargs) = Response 200 text (Some (JObj kvs))) \<and>
    map_of kvs ''error'' = Some (JObj err) \<and> map_of err ''message'' = Some msg \<longrightarrow>
      fst (call_custom srv methodName kwargs s) = Inl (ECMException msg))"
  by (simp add: call_run_def call_custom_def Let_def rpc_result_error_object)

theorem error_object_raises_message_witness:
  "fst (call_run (\<lambda>tr req. error_reply ''refused'' (- 32000) ''refused'') ''Queue.Add'' []
          (init_run ''http://localhost:9880/api'')) = Inl (ECMException (JStr ''refused'')) \<and>
   fst (call_custom (\<lambda>tr req. error_reply ''refused'' 404 ''refused'') ''Queue.Add'' []
          (init_custom ''http://localhost:9880/api/'')) = Inl (ECMException (JStr ''refused''))"
  using error_object_raises_message
      [of "\<lambda>tr req. error_reply ''refused'' (- 32000) ''refused''"
          "init_run ''http://localhost:9880/api''" "''Queue.Add''" "[]" "''refused''"
          "[(''id'', JInt 0), (''error'', JObj [(''code'', JInt (- 32000)), (''message'', JStr ''refused'')])]"
          "[(''code'', JInt (- 32000)), (''message'', JStr ''refused'')]" "JStr ''refused''"]
    error_object_raises_message
      [of "\<lambda>tr req. error_reply ''refused'' 404 ''refused''"
          "init_custom ''http://localhost:9880/api/''" "''Queue.Add''" "[]" "''refused''"
          "[(''id'', JInt 0), (''error'', JObj [(''code'', JInt 404), (''message'', JStr ''refused'')])]"
          "[(''code'', JInt 404), (''message'', JStr ''refused'')]" "JStr ''refused''"]
  by (simp add: error_reply_def)

text \<open>
  C6 as stated, for every response with a success status, fails at status 201: with the
  same error object in the body, \<open>call\<close> takes the branch of the other statuses and
  raises \<open>ECMException\<close> with the raw text of the response, not with the nested message.
\<close>

theorem error_object_status_201_counterexample:
  \<open>fst (call_run
          (\<lambda>tr req. Response 201 ''{"id": 0, "error": {"code": -32000, "message": "refused"}}''
             (Some (JObj [(''id'', JInt 0),
                          (''error'', JObj [(''code'', JInt (- 32000)),
                                            (''message'', JStr ''refused'')])])))
          ''Queue.Add'' [] (init_run ''http://localhost:9880/api'')) =
     Inl (ECMException (JStr ''{"id": 0, "error": {"code": -32000, "message": "refused"}}'')) \<and>
   fst (call_custom
          (\<lambda>tr req. Response 201 ''{"id": 0, "error": {"code": -32000, "message": "refused"}}''
             (Some (JObj [(''id'', JInt 0),
                          (''error'', JObj [(''code'', JInt (- 32000)),
                                            (''message'', JStr ''refused'')])])))
          ''Queue.Add'' [] (init_custom ''http://localhost:9880/api/'')) =
     Inl (ECMException (JStr ''{"id": 0, "error": {"code": -32000, "message": "refused"}}'')) \<and>
   ECMException (JStr ''{"id": 0, "error": {"code": -32000, "message": "refused"}}'') \<noteq>
     ECMException (JStr ''refused'')\<close>
  by (simp add: call_run_def call_custom_def Let_def)

text \<open>
  C7, as the code has it. After any sequence of calls on a connection, a further call
  posts exactly one request, to the URL of the connection, with a JSON content type and
  with the proxy for \<open>http\<close> set to \<open>None\<close>. In \<^verbatim>\<open>ecm_run.py\<close> the request carries the
  timeout 0.2, which is less than a second; in \<^verbatim>\<open>ecm_custom.py\<close> it carries no timeout.
\<close>

theorem post_arguments:
  "posts (trace (snd (call_run srv m kw (calls_run srv cs (init_run u))))) =
     posts (trace (calls_run srv cs (init_run u))) @
       [request_run (ecm (calls_run srv cs (init_run u))) m kw] \<and>
   post_url (request_run (ecm (calls_run srv cs (init_run u))) m kw) = u \<and>
   post_headers (request_run (ecm (calls_run srv cs (init_run u))) m kw) =
     [(''content-type'', ''application/json'')] \<and>
   post_proxies (request_run (ecm (calls_run srv cs (init_run u))) m kw) = [(''http'', None)] \<and>
   post_timeout (request_run (ecm (calls_run srv cs (init_run u))) m kw) = Some timeout_0_2 \<and>
   sub_second timeout_0_2 \<and>
   posts (trace (snd (call_custom srv m kw (calls_custom srv cs (init_custom u))))) =
     posts (trace (calls_custom srv cs (init_custom u))) @
       [request_custom (ecm (calls_custom srv cs (init_custom u))) m kw] \<and>
   post_url (request_custom (ecm (calls_custom srv cs (init_custom u))) m kw) = u \<and>
   post_headers (request_custom (ecm (calls_custom srv cs (init_custom u))) m kw) =
     [(''Content-Type'', ''application/json'')] \<and>
   post_proxies (request_custom (ecm (calls_custom srv cs (init_custom u))) m kw) = [(''http'', None)] \<and>
   post_timeout (request_custom (ecm (calls_custom srv cs (init_custom u))) m kw) = None"
  by (simp add: request_run_def request_custom_def init_run_def init_custom_def timeout_0_2_def)

text \<open>
  C7 as stated (a sub-second timeout in both scripts) fails on \<^verbatim>\<open>ecm_custom.py\<close>: the
  request of a first \<^verbatim>\<open>Queue.Add\<close> has no timeout.
\<close>

theorem custom_post_has_no_timeout_counterexample:
  "map post_timeout (posts (trace (snd
      (call_custom (stub (\<lambda>n. status_reply ''RUNNING'') []) ''Queue.Add'' []
         (init_custom ''http://localhost:9880/api/''))))) = [None] \<and>
   \<not> (case post_timeout (request_custom (ecm (init_custom ''http://localhost:9880/api/''))
                ''Queue.Add'' [])
       of None \<Rightarrow> False | Some t \<Rightarrow> sub_second t)"
  by (simp add: request_custom_def init_custom_def)

section \<open>The session\<close>

text \<open>
  C4, as the code has it (\<^verbatim>\<open>ecm_custom.py\<close>, the script with a configurable timeout).
  With \<^verbatim>\<open>--timeout 250\<close>, a status query that always returns \<open>RUNNING\<close> and every other
  call returning normally, the session ends with one status query, a sleep of 250,
  \<^verbatim>\<open>Queue.Abort\<close>, a sleep of 500 and \<^verbatim>\<open>Queue.Remove\<close>, and returns 0; nothing before
  that is a status query, an abort or a removal. So there is exactly one abort, then the
  grace delay, then exactly one removal, and no status query after the abort.
  (\<^verbatim>\<open>ecm_run.py\<close> has no timeout option: its budget is always 10000, and lemma
  \<open>main_run_timeout_path\<close> gives the same ending there after 40 status queries.)
\<close>

theorem timeout_path_abort_then_remove:
  assumes "arg_send_trigger args = None" and "\<not> arg_get_laserpowers args"
    and "arg_template args = Some path" and "files path = Some xml"
    and "arg_timeout args = Some 250"
    and "\<And>kw s. fst (call_custom srv ''Queue.GetMeasurementState'' kw s) = Inr (JStr ''RUNNING'')"
    and "\<And>m kw s. m \<noteq> ''Queue.GetMeasurementState'' \<Longrightarrow>
           \<exists>r. fst (call_custom srv m kw s) = Inr r"
  shows "fst (main_custom srv files args) = Inr 0 \<and>
    (\<exists>pre. actions (snd (main_custom srv files args)) =
        pre @ [Call ''Queue.GetMeasurementState'', Pause 250,
               Call ''Queue.Abort'', Pause 500, Call ''Queue.Remove''] \<and>
      Call ''Queue.GetMeasurementState'' \<notin> set pre \<and>
      Call ''Queue.Abort'' \<notin> set pre \<and> Call ''Queue.Remove'' \<notin> set pre)"
proof -
  have t: "opt_timeout (parse_args_custom args) = 250"
    using assms(5) by (simp add: parse_args_custom_def)
  have w: "\<And>h. runs (\<lambda>x. x = JStr ''RUNNING'')
      (wait_custom srv h (opt_timeout (parse_args_custom args)))
      [Pause 250, Call ''Queue.GetMeasurementState'', Pause 250]"
    unfolding t by (rule runs_wait_custom_once) (simp_all add: assms(6))
  note s = main_custom_session [where files = files, OF assms(1-4) assms(7) w]
  show ?thesis
    apply (rule conjI)
     apply (simp add: s)
    apply (rule exI [of _ "Call ''Queue.Add'' # configuration (parse_args_custom args) @
        [Call ''Queue.Continue'', Pause 250]"])
    apply (simp add: s configuration_calls)
    done
qed

theorem timeout_path_abort_then_remove_witness:
  "fst (main_custom (stub (\<lambda>n. status_reply ''RUNNING'') []) one_file
          (template_only\<lparr>arg_timeout := Some 250\<rparr>)) = Inr 0 \<and>
    (\<exists>pre. actions (snd (main_custom (stub (\<lambda>n. status_reply ''RUNNING'') []) one_file
          (template_only\<lparr>arg_timeout := Some 250\<rparr>))) =
        pre @ [Call ''Queue.GetMeasurementState'', Pause 250,
               Call ''Queue.Abort'', Pause 500, Call ''Queue.Remove''] \<and>
      Call ''Queue.GetMeasurementState'' \<notin> set pre \<and>
      Call ''Queue.Abort'' \<notin> set pre \<and> Call ''Queue.Remove'' \<notin> set pre)"
proof (rule timeout_path_abort_then_remove
    [where files = one_file and path = "''template.wxm''" and xml = "''<template/>''"])
  show "arg_send_trigger (template_only\<lparr>arg_timeout := Some 250\<rparr>) = None"
    by (simp add: template_only_def)
  show "\<not> arg_get_laserpowers (template_only\<lparr>arg_timeout := Some 250\<rparr>)"
    by (simp add: template_only_def)
  show "arg_template (template_only\<lparr>arg_timeout := Some 250\<rparr>) = Some ''template.wxm''"
    by (simp add: template_only_def)
  show "one_file ''template.wxm'' = Some ''<template/>''"
    by (simp add: one_file_def)
  show "arg_timeout (template_only\<lparr>arg_timeout := Some 250\<rparr>) = Some 250"
    by simp
  show "\<And>kw s. fst (call_custom (stub (\<lambda>n. status_reply ''RUNNING'') [])
      ''Queue.GetMeasurementState'' kw s) = Inr (JStr ''RUNNING'')"
    by (simp add: call_custom_stub_status)
  show "\<And>m kw s. m \<noteq> ''Queue.GetMeasurementState'' \<Longrightarrow>
      \<exists>r. fst (call_custom (stub (\<lambda>n. status_reply ''RUNNING'') []) m kw s) = Inr r"
    by (rule call_custom_stub_ok) simp_all
qed

text \<open>
  C4 as stated, for every server on the timeout path, fails when the server refuses
  \<^verbatim>\<open>Queue.Abort\<close>: \<open>call\<close> raises, nothing in \<open>main\<close> catches it, and \<^verbatim>\<open>Queue.Remove\<close> is
  never posted.
\<close>

theorem abort_refused_no_remove_counterexample:
  "fst (main_custom (stub (\<lambda>n. status_reply ''RUNNING'') [''Queue.Abort'']) one_file
          (template_only\<lparr>arg_timeout := Some 250\<rparr>)) = Inl (ECMException (JStr ''refused'')) \<and>
   actions (snd (main_custom (stub (\<lambda>n. status_reply ''RUNNING'') [''Queue.Abort'']) one_file
          (template_only\<lparr>arg_timeout := Some 250\<rparr>))) =
     [Call ''Queue.Add'', Call ''Measurement.SetMapUseStage'', Call ''Queue.Continue'',
      Pause 250, Call ''Queue.GetMeasurementState'', Pause 250, Call ''Queue.Abort''] \<and>
   count_list (methods (snd (main_custom (stub (\<lambda>n. status_reply ''RUNNING'') [''Queue.Abort''])
          one_file (template_only\<lparr>arg_timeout := Some 250\<rparr>)))) ''Queue.Remove'' = 0"
proof -
  let ?srv = "stub (\<lambda>n. status_reply ''RUNNING'') [''Queue.Abort'']"
  let ?args = "template_only\<lparr>arg_timeout := Some 250\<rparr>"
  have w: "\<And>h. runs (\<lambda>x. x = JStr ''RUNNING'')
      (wait_custom ?srv h (opt_timeout (parse_args_custom ?args)))
      [Pause 250, Call ''Queue.GetMeasurementState'', Pause 250]"
    by (rule runs_wait_custom_once) (simp_all add: call_custom_stub_status)
  have s: "fst (main_custom ?srv one_file ?args) = Inl (ECMException (JStr ''refused'')) \<and>
      actions (snd (main_custom ?srv one_file ?args)) =
        Call ''Queue.Add'' # configuration (parse_args_custom ?args) @
        [Call ''Queue.Continue''] @
        [Pause 250, Call ''Queue.GetMeasurementState'', Pause 250] @ [Call ''Queue.Abort'']"
  proof (rule main_custom_abort_fails
      [where files = one_file and path = "''template.wxm''" and xml = "''<template/>''", OF _ _ _ _ _ _ w])
    show "arg_send_trigger ?args = None" "\<not> arg_get_laserpowers ?args"
      "arg_template ?args = Some ''template.wxm''"
      by (simp_all add: template_only_def)
    show "one_file ''template.wxm'' = Some ''<template/>''"
      by (simp add: one_file_def)
    show "\<And>m kw s. m \<noteq> ''Queue.GetMeasurementState'' \<Longrightarrow> m \<noteq> ''Queue.Abort'' \<Longrightarrow>
        \<exists>r. fst (call_custom ?srv m kw s) = Inr r"
      by (rule call_custom_stub_ok) simp_all
    show "\<And>kw s. fst (call_custom ?srv ''Queue.Abort'' kw s) = Inl (ECMException (JStr ''refused''))"
      by (rule call_custom_stub_refused) simp_all
    show "JStr ''RUNNING'' \<noteq> JStr ''COMPLETE''" by simp
  qed
  have a: "actions (snd (main_custom ?srv one_file ?args)) =
     [Call ''Queue.Add'', Call ''Measurement.SetMapUseStage'', Call ''Queue.Continue'',
      Pause 250, Call ''Queue.GetMeasurementState'', Pause 250, Call ''Queue.Abort'']"
    using s by (simp add: configuration_def)
  have m: "\<And>tr. methods tr = [m. Call m \<leftarrow> actions tr]"
  proof -
    fix tr show "methods tr = [m. Call m \<leftarrow> actions tr]"
      by (induction tr rule: actions.induct) (simp_all add: methods_def)
  qed
  show ?thesis
    using s by (simp add: a m)
qed

text \<open>
  C8 fails on \<^verbatim>\<open>ecm_custom.py\<close> for the stage flag. With the template as the only option
  (no stage flag), \<open>options.stage\<close> is \<open>True\<close>, the default of the \<^verbatim>\<open>store_false\<close>
  action, so the test \<^verbatim>\<open>if not options.stage is None\<close> holds and the session posts
  \<^verbatim>\<open>Measurement.SetMapUseStage\<close>. The other configuration calls are posted only for the
  options that are given (lemma \<open>main_custom_session\<close>).
\<close>

theorem stage_call_without_stage_flag:
  "arg_stage template_only = [] \<and>
   fst (main_custom (stub (\<lambda>n. status_reply ''COMPLETE'') []) one_file template_only) = Inr 0 \<and>
   actions (snd (main_custom (stub (\<lambda>n. status_reply ''COMPLETE'') []) one_file template_only)) =
     [Call ''Queue.Add'', Call ''Measurement.SetMapUseStage'', Call ''Queue.Continue'',
      Pause 250, Call ''Queue.GetMeasurementState'', Pause 250, Call ''Queue.Remove'']"
proof -
  let ?srv = "stub (\<lambda>n. status_reply ''COMPLETE'') []"
  have w: "\<And>h. runs (\<lambda>x. x = JStr ''COMPLETE'')
      (wait_custom ?srv h (opt_timeout (parse_args_custom template_only)))
      [Pause 250, Call ''Queue.GetMeasurementState'', Pause 250]"
    by (rule runs_wait_custom_once) (simp_all add: call_custom_stub_status)
  have s: "fst (main_custom ?srv one_file template_only) = Inr 0 \<and>
      actions (snd (main_custom ?srv one_file template_only)) =
        Call ''Queue.Add'' # configuration (parse_args_custom template_only) @
        [Call ''Queue.Continue''] @
        [Pause 250, Call ''Queue.GetMeasurementState'', Pause 250] @
        (if JStr ''COMPLETE'' \<noteq> JStr ''COMPLETE'' then [Call ''Queue.Abort'', Pause 500] else []) @
        [Call ''Queue.Remove'']"
  proof (rule main_custom_session
      [where files = one_file and path = "''template.wxm''" and xml = "''<template/>''", OF _ _ _ _ _ w])
    show "arg_send_trigger template_only = None" "\<not> arg_get_laserpowers template_only"
      "arg_template template_only = Some ''template.wxm''"
      by (simp_all add: template_only_def)
    show "one_file ''template.wxm'' = Some ''<template/>''"
      by (simp add: one_file_def)
    show "\<And>m kw s. m \<noteq> ''Queue.GetMeasurementState'' \<Longrightarrow>
        \<exists>r. fst (call_custom ?srv m kw s) = Inr r"
      by (rule call_custom_stub_ok) simp_all
  qed
  have e: "arg_stage template_only = []"
    by (simp add: template_only_def)
  show ?thesis
    using s by (simp add: e)
qed

text \<open>
  C9 fails on \<^verbatim>\<open>ecm_run.py\<close>. With \<^verbatim>\<open>--accumulations 5\<close> the session posts
  \<^verbatim>\<open>Measurement.SetAccumulations\<close> and then evaluates
  \<^verbatim>\<open>ecm.Measurement.SetAccumulation(handle, 10)\<close>, which raises \<open>AttributeError\<close>: the
  measurement is neither released nor removed. In \<^verbatim>\<open>ecm_custom.py\<close> the step is the one
  call (lemma \<open>main_custom_session\<close>).
\<close>

theorem accumulations_end_the_run_session:
  "fst (main_run (stub (\<lambda>n. status_reply ''COMPLETE'') []) one_file
          (template_only\<lparr>arg_accumulations := Some 5\<rparr>)) = Inl (AttributeError ''Measurement'') \<and>
   actions (snd (main_run (stub (\<lambda>n. status_reply ''COMPLETE'') []) one_file
          (template_only\<lparr>arg_accumulations := Some 5\<rparr>))) =
     [Call ''Queue.Add'', Call ''Measurement.SetAccumulations'']"
proof -
  let ?args = "template_only\<lparr>arg_accumulations := Some 5\<rparr>"
  obtain options where p: "parse_args_run ?args = Inr options"
      and o: "opt_accumulations options = Some 5" "opt_template options = Some ''template.wxm''"
        "opt_exposure options = None" "opt_filename options = None"
    by (simp add: parse_args_run_def template_only_def)
  have "fst (main_run (stub (\<lambda>n. status_reply ''COMPLETE'') []) one_file ?args) =
          Inl (AttributeError ''Measurement'') \<and>
        actions (snd (main_run (stub (\<lambda>n. status_reply ''COMPLETE'') []) one_file ?args)) =
           [Call ''Queue.Add''] @
           (if opt_exposure options = None then [] else [Call ''Measurement.SetExposure'']) @
           (if opt_filename options = None then [] else [Call ''Measurement.SetFilename'']) @
           [Call ''Measurement.SetAccumulations'']"
  proof (rule main_run_accumulations [where files = one_file and xml = "''<template/>''", OF p o(1) o(2)])
    show "one_file ''template.wxm'' = Some ''<template/>''"
      by (simp add: one_file_def)
    show "\<And>m kw s. m \<noteq> ''Queue.GetMeasurementState'' \<Longrightarrow>
        \<exists>r. fst (call_run (stub (\<lambda>n. status_reply ''COMPLETE'') []) m kw s) = Inr r"
      by (rule call_run_stub_ok) simp_all
  qed
  then show ?thesis by (simp add: o)
qed

text \<open>
  C10, as the code has it. With a budget of 0 or less, \<open>wait\<close> makes no status query and returns the empty
  string, which is not \<open>COMPLETE\<close> (\<^verbatim>\<open>ecm_custom.py\<close> sleeps 250 first). Its caller
  then aborts and removes: in \<^verbatim>\<open>ecm_custom.py\<close>, where the budget comes from
  \<^verbatim>\<open>--timeout\<close>, a session whose calls return normally ends with \<^verbatim>\<open>Queue.Continue\<close>,
  the sleep of 250, \<^verbatim>\<open>Queue.Abort\<close>, the sleep of 500 and \<^verbatim>\<open>Queue.Remove\<close>, with no
  status query at all; the abort is always attempted, the removal follows when the abort
  returns. (\<open>main\<close> of \<^verbatim>\<open>ecm_run.py\<close> always passes 10000.)
\<close>

theorem wait_without_budget:
  "(timeout \<le> 0 \<longrightarrow>
      wait_run srv h timeout s = (Inr (JStr ''''), s) \<and>
      wait_custom srv h timeout s = (Inr (JStr ''''), emit (Sleep 250) s) \<and>
      status_queries (trace (snd (wait_run srv h timeout s))) = status_queries (trace s) \<and>
      status_queries (trace (snd (wait_custom srv h timeout s))) = status_queries (trace s) \<and>
      JStr '''' \<noteq> JStr ''COMPLETE'') \<and>
   (timeout \<le> 0 \<and> arg_timeout args = Some timeout \<and>
    arg_send_trigger args = None \<and> \<not> arg_get_laserpowers args \<and>
    arg_template args = Some path \<and> files path = Some xml \<and>
    (\<forall>m kw s'. m \<noteq> ''Queue.GetMeasurementState'' \<longrightarrow>
        (\<exists>r. fst (call_custom srv m kw s') = Inr r)) \<longrightarrow>
      fst (main_custom srv files args) = Inr 0 \<and>
      (\<exists>pre. actions (snd (main_custom srv files args)) =
          pre @ [Call ''Queue.Continue'', Pause 250,
                 Call ''Queue.Abort'', Pause 500, Call ''Queue.Remove''] \<and>
        Call ''Queue.GetMeasurementState'' \<notin> set pre \<and>
        Call ''Queue.Abort'' \<notin> set pre \<and> Call ''Queue.Remove'' \<notin> set pre))"
proof (intro conjI impI)
  assume "timeout \<le> 0"
  then show "wait_run srv h timeout s = (Inr (JStr ''''), s)"
    "wait_custom srv h timeout s = (Inr (JStr ''''), emit (Sleep 250) s)"
    "status_queries (trace (snd (wait_run srv h timeout s))) = status_queries (trace s)"
    "status_queries (trace (snd (wait_custom srv h timeout s))) = status_queries (trace s)"
    by (simp_all add: wait_run_def wait_custom_def wait_loop_run_stop wait_loop_custom_stop)
next
  show "JStr '''' \<noteq> JStr ''COMPLETE''" by simp
next
  assume H: "timeout \<le> 0 \<and> arg_timeout args = Some timeout \<and>
    arg_send_trigger args = None \<and> \<not> arg_get_laserpowers args \<and>
    arg_template args = Some path \<and> files path = Some xml \<and>
    (\<forall>m kw s'. m \<noteq> ''Queue.GetMeasurementState'' \<longrightarrow>
        (\<exists>r. fst (call_custom srv m kw s') = Inr r))"
  have t: "opt_timeout (parse_args_custom args) = timeout"
    using H by (simp add: parse_args_custom_def)
  have w: "\<And>h. runs (\<lambda>x. x = JStr '''')
      (wait_custom srv h (opt_timeout (parse_args_custom args))) [Pause 250]"
    unfolding t using H by (simp add: runs_wait_custom_none)
  have ok: "\<And>m kw s'. m \<noteq> ''Queue.GetMeasurementState'' \<Longrightarrow>
      \<exists>r. fst (call_custom srv m kw s') = Inr r"
    using H by blast
  have s: "fst (main_custom srv files args) = Inr 0 \<and>
      actions (snd (main_custom srv files args)) =
        Call ''Queue.Add'' # configuration (parse_args_custom args) @
        [Call ''Queue.Continue''] @ [Pause 250] @
        (if JStr '''' \<noteq> JStr ''COMPLETE'' then [Call ''Queue.Abort'', Pause 500] else []) @
        [Call ''Queue.Remove'']"
    by (rule main_custom_session [where files = files and path = path and xml = xml, OF _ _ _ _ ok w])
      (simp_all add: H)
  show "fst (main_custom srv files args) = Inr 0"
    by (simp add: s)
  show "\<exists>pre. actions (snd (main_custom srv files args)) =
          pre @ [Call ''Queue.Continue'', Pause 250,
                 Call ''Queue.Abort'', Pause 500, Call ''Queue.Remove''] \<and>
        Call ''Queue.GetMeasurementState'' \<notin> set pre \<and>
        Call ''Queue.Abort'' \<notin> set pre \<and> Call ''Queue.Remove'' \<notin> set pre"
    apply (rule exI [of _ "Call ''Queue.Add'' # configuration (parse_args_custom args)"])
    apply (simp add: s configuration_calls)
    done
qed

theorem wait_without_budget_witness:
  "wait_run (stub (\<lambda>n. status_reply ''RUNNING'') []) (JInt 7) 0
      (init_run ''http://localhost:9880/api'') =
     (Inr (JStr ''''), init_run ''http://localhost:9880/api'') \<and>
   wait_custom (stub (\<lambda>n. status_reply ''RUNNING'') []) (JInt 7) 0
      (init_custom ''http://localhost:9880/api/'') =
     (Inr (JStr ''''), emit (Sleep 250) (init_custom ''http://localhost:9880/api/'')) \<and>
   fst (main_custom (stub (\<lambda>n. status_reply ''RUNNING'') []) one_file
          (template_only\<lparr>arg_timeout := Some 0\<rparr>)) = Inr 0 \<and>
   (\<exists>pre. actions (snd (main_custom (stub (\<lambda>n. status_reply ''RUNNING'') []) one_file
          (template_only\<lparr>arg_timeout := Some 0\<rparr>))) =
          pre @ [Call ''Queue.Continue'', Pause 250,
                 Call ''Queue.Abort'', Pause 500, Call ''Queue.Remove''] \<and>
        Call ''Queue.GetMeasurementState'' \<notin> set pre \<and>
        Call ''Queue.Abort'' \<notin> set pre \<and> Call ''Queue.Remove'' \<notin> set pre)"
proof -
  have ok: "\<forall>m kw s'. m \<noteq> ''Queue.GetMeasurementState'' \<longrightarrow>
      (\<exists>r. fst (call_custom (stub (\<lambda>n. status_reply ''RUNNING'') []) m kw s') = Inr r)"
    by (simp add: call_custom_stub_ok)
  have a: "arg_timeout (template_only\<lparr>arg_timeout := Some 0\<rparr>) = Some 0"
      "arg_send_trigger (template_only\<lparr>arg_timeout := Some 0\<rparr>) = None"
      "\<not> arg_get_laserpowers (template_only\<lparr>arg_timeout := Some 0\<rparr>)"
      "arg_template (template_only\<lparr>arg_timeout := Some 0\<rparr>) = Some ''template.wxm''"
      "one_file ''template.wxm'' = Some ''<template/>''"
    by (simp_all add: template_only_def one_file_def)
  show ?thesis
    using wait_without_budget
        [of 0 "stub (\<lambda>n. status_reply ''RUNNING'') []" "JInt 7" "init_run ''http://localhost:9880/api''"
            "template_only\<lparr>arg_timeout := Some 0\<rparr>" "''template.wxm''" one_file "''<template/>''"]
      wait_without_budget
        [of 0 "stub (\<lambda>n. status_reply ''RUNNING'') []" "JInt 7" "init_custom ''http://localhost:9880/api/''"
            "template_only\<lparr>arg_timeout := Some 0\<rparr>" "''template.wxm''" one_file "''<template/>''"]
      ok a
    by simp
qed

text \<open>
  C10 as stated, with the removal following unconditionally, fails when the server
  refuses \<^verbatim>\<open>Queue.Abort\<close>: with \<^verbatim>\<open>--timeout 0\<close> the session posts no status query,
  posts the abort, and \<open>main\<close> raises before \<^verbatim>\<open>Queue.Remove\<close>.
\<close>

theorem abort_refused_without_budget_counterexample:
  "fst (main_custom (stub (\<lambda>n. status_reply ''RUNNING'') [''Queue.Abort'']) one_file
          (template_only\<lparr>arg_timeout := Some 0\<rparr>)) = Inl (ECMException (JStr ''refused'')) \<and>
   actions (snd (main_custom (stub (\<lambda>n. status_reply ''RUNNING'') [''Queue.Abort'']) one_file
          (template_only\<lparr>arg_timeout := Some 0\<rparr>))) =
     [Call ''Queue.Add'', Call ''Measurement.SetMapUseStage'', Call ''Queue.Continue'',
      Pause 250, Call ''Queue.Abort''] \<and>
   count_list (methods (snd (main_custom (stub (\<lambda>n. status_reply ''RUNNING'') [''Queue.Abort''])
          one_file (template_only\<lparr>arg_timeout := Some 0\<rparr>)))) ''Queue.Remove'' = 0"
proof -
  let ?srv = "stub (\<lambda>n. status_reply ''RUNNING'') [''Queue.Abort'']"
  let ?args = "template_only\<lparr>arg_timeout := Some 0\<rparr>"
  have w: "\<And>h. runs (\<lambda>x. x = JStr '''')
      (wait_custom ?srv h (opt_timeout (parse_args_custom ?args))) [Pause 250]"
    by (rule runs_wait_custom_none) simp
  have s: "fst (main_custom ?srv one_file ?args) = Inl (ECMException (JStr ''refused'')) \<and>
      actions (snd (main_custom ?srv one_file ?args)) =
        Call ''Queue.Add'' # configuration (parse_args_custom ?args) @
        [Call ''Queue.Continue''] @ [Pause 250] @ [Call ''Queue.Abort'']"
  proof (rule main_custom_abort_fails
      [where files = one_file and path = "''template.wxm''" and xml = "''<template/>''", OF _ _ _ _ _ _ w])
    show "arg_send_trigger ?args = None" "\<not> arg_get_laserpowers ?args"
      "arg_template ?args = Some ''template.wxm''"
      by (simp_all add: template_only_def)
    show "one_file ''template.wxm'' = Some ''<template/>''"
      by (simp add: one_file_def)
    show "\<And>m kw s. m \<noteq> ''Queue.GetMeasurementState'' \<Longrightarrow> m \<noteq> ''Queue.Abort'' \<Longrightarrow>
        \<exists>r. fst (call_custom ?srv m kw s) = Inr r"
      by (rule call_custom_stub_ok) simp_all
    show "\<And>kw s. fst (call_custom ?srv ''Queue.Abort'' kw s) = Inl (ECMException (JStr ''refused''))"
      by (rule call_custom_stub_refused) simp_all
    show "JStr '''' \<noteq> JStr ''COMPLETE''" by simp
  qed
  have a: "actions (snd (main_custom ?srv one_file ?args)) =
     [Call ''Queue.Add'', Call ''Measurement.SetMapUseStage'', Call ''Queue.Continue'',
      Pause 250, Call ''Queue.Abort'']"
    using s by (simp add: configuration_def)
  have m: "\<And>tr. methods tr = [m. Call m \<leftarrow> actions tr]"
  proof -
    fix tr show "methods tr = [m. Call m \<leftarrow> actions tr]"
      by (induction tr rule: actions.induct) (simp_all add: methods_def)
  qed
  show ?thesis
    using s by (simp add: a m)
qed

end
